theory Spec2Isabelle
  imports Main "HOL-Library.AList"
begin

section \<open>Time\<close>

text \<open>
  A Python \<open>datetime\<close> is a point in time with microsecond resolution and a
  \<open>timedelta\<close> is a signed number of microseconds.  Both are modelled as the integer
  number of microseconds (since a fixed epoch for \<open>datetime\<close>); subtraction and comparison
  of \<open>datetime\<close> values are then the integer ones.  Every operation of the program reads
  the clock through \<open>datetime.now()\<close>; the reading is the parameter \<open>now\<close> of the
  modelled operation (one reading per operation).  All values are taken inside the range
  the Python types can hold.
\<close>

type_synonym datetime = int
type_synonym timedelta = int

definition timedelta_seconds :: "int \<Rightarrow> timedelta" where
  "timedelta_seconds s = s * 1000000"

definition timedelta_minutes :: "int \<Rightarrow> timedelta" where
  "timedelta_minutes m = m * 60000000"

text \<open>
  \<open>int(td.total_seconds())\<close>: the number of seconds of a \<open>timedelta\<close>, truncated towards
  zero by \<open>int\<close>.  \<open>total_seconds\<close> is the correctly rounded quotient by one second; for
  the durations of this program (far below the centuries at which a rounded quotient
  could reach the next whole second) truncating it is truncating the exact quotient.
\<close>

definition int_total_seconds :: "timedelta \<Rightarrow> int" where
  "int_total_seconds td =
     (if 0 \<le> td then td div 1000000 else - ((- td) div 1000000))"

text \<open>The exceptions a modelled operation can raise: a dictionary subscript on a missing key.\<close>

datatype py_error = KeyError

section \<open>RateLimiter (main.py)\<close>

record RateLimiter =
  max_messages :: int
  time_window :: int
  user_messages :: "int \<rightharpoonup> datetime list"

text \<open>\<open>RateLimiter.__init__\<close> stores its two arguments and an empty \<open>defaultdict(list)\<close>.\<close>

definition RateLimiter_init :: "int \<Rightarrow> int \<Rightarrow> py_error + RateLimiter" where
  "RateLimiter_init mm tw =
     Inr \<lparr>max_messages = mm, time_window = tw, user_messages = Map.empty\<rparr>"

text \<open>
  \<open>self.user_messages[user_id]\<close> on a \<open>defaultdict(list)\<close>: a missing key is inserted
  with an empty list, which is returned.
\<close>

definition defaultdict_get ::
  "(int \<rightharpoonup> datetime list) \<Rightarrow> int \<Rightarrow> datetime list \<times> (int \<rightharpoonup> datetime list)" where
  "defaultdict_get d k =
     (case d k of None \<Rightarrow> ([], d(k \<mapsto> [])) | Some v \<Rightarrow> (v, d))"

definition is_allowed :: "RateLimiter \<Rightarrow> int \<Rightarrow> datetime \<Rightarrow> RateLimiter \<times> bool" where
  "is_allowed rl user_id now =
     (let (user_history, d) = defaultdict_get (user_messages rl) user_id;
          cutoff_time = now - timedelta_seconds (time_window rl);
          user_history = filter (\<lambda>msg_time. msg_time > cutoff_time) user_history
      in if int (length user_history) \<ge> max_messages rl
         then (rl\<lparr>user_messages := d(user_id \<mapsto> user_history)\<rparr>, False)
         else (rl\<lparr>user_messages := d(user_id \<mapsto> user_history @ [now])\<rparr>, True))"

text \<open>\<open>min(user_history)\<close> on a non-empty list.\<close>

definition get_wait_time :: "RateLimiter \<Rightarrow> int \<Rightarrow> datetime \<Rightarrow> RateLimiter \<times> int" where
  "get_wait_time rl user_id now =
     (let (user_history, d) = defaultdict_get (user_messages rl) user_id;
          rl' = rl\<lparr>user_messages := d\<rparr>
      in if user_history = [] then (rl', 0)
         else
           (let oldest_message = fold min (tl user_history) (hd user_history);
                wait_until = oldest_message + timedelta_seconds (time_window rl);
                wait_time = int_total_seconds (wait_until - now)
            in (rl', max 0 wait_time)))"

text \<open>The timestamps recorded for a user (none when the user has no key).\<close>

definition history :: "RateLimiter \<Rightarrow> int \<Rightarrow> datetime list" where
  "history rl user_id = (case user_messages rl user_id of None \<Rightarrow> [] | Some h \<Rightarrow> h)"

text \<open>
  A sequence of \<open>is_allowed\<close> calls, each given as the calling user and the clock reading
  of the call; the result is the final limiter and the answer of every call.
\<close>

fun admit_calls :: "RateLimiter \<Rightarrow> (int \<times> datetime) list \<Rightarrow> RateLimiter \<times> bool list" where
  "admit_calls rl [] = (rl, [])"
| "admit_calls rl (c # cs) =
     (let (rl1, b) = is_allowed rl (fst c) (snd c);
          (rl2, bs) = admit_calls rl1 cs
      in (rl2, b # bs))"

text \<open>The clock readings of the admitted calls of one user, in call order.\<close>

definition admitted :: "int \<Rightarrow> (int \<times> datetime) list \<Rightarrow> bool list \<Rightarrow> datetime list" where
  "admitted user_id cs bs =
     map (\<lambda>(c, b). snd c) (filter (\<lambda>(c, b). fst c = user_id \<and> b) (zip cs bs))"

section \<open>Strings\<close>

text \<open>
  A Python \<open>str\<close> is a sequence of Unicode code points and \<open>len\<close> counts code points;
  it is modelled as the list of its code points.
\<close>

type_synonym pystr = "nat list"

text \<open>The characters \<open>str.strip()\<close> removes: those for which \<open>str.isspace()\<close> holds.\<close>

definition isspace :: "nat \<Rightarrow> bool" where
  "isspace c \<longleftrightarrow>
     (9 \<le> c \<and> c \<le> 13) \<or> (28 \<le> c \<and> c \<le> 32) \<or> c = 133 \<or> c = 160 \<or> c = 5760 \<or>
     (8192 \<le> c \<and> c \<le> 8202) \<or> c = 8232 \<or> c = 8233 \<or> c = 8239 \<or> c = 8287 \<or> c = 12288"

definition strip :: "pystr \<Rightarrow> pystr" where
  "strip s = rev (dropWhile isspace (rev (dropWhile isspace s)))"

text \<open>\<open>sep.join(parts)\<close>.\<close>

fun join :: "pystr \<Rightarrow> pystr list \<Rightarrow> pystr" where
  "join sep [] = []"
| "join sep [p] = p"
| "join sep (p # q # ps) = p @ sep @ join sep (q # ps)"

text \<open>\<open>str(i)\<close> for a non-negative integer: its decimal digits.\<close>

fun str_nat :: "nat \<Rightarrow> pystr" where
  "str_nat n = (if n < 10 then [48 + n] else str_nat (n div 10) @ [48 + n mod 10])"

declare str_nat.simps [simp del]

text \<open>Python slices \<open>xs[s:]\<close> and \<open>xs[:e]\<close>; a negative bound counts from the end.\<close>

definition slice_from :: "'a list \<Rightarrow> int \<Rightarrow> 'a list" where
  "slice_from xs s = (if s < 0 then drop (nat (int (length xs) + s)) xs else drop (nat s) xs)"

definition slice_to :: "'a list \<Rightarrow> int \<Rightarrow> 'a list" where
  "slice_to xs e = (if e < 0 then take (nat (int (length xs) + e)) xs else take (nat e) xs)"

text \<open>
  \<open>xs.index(x)\<close>: the position of the first element equal to \<open>x\<close>.  The program only
  asks for the index of an element of \<open>xs\<close>, where \<open>index\<close> does not raise.
\<close>

definition index_of :: "'a list \<Rightarrow> 'a \<Rightarrow> nat" where
  "index_of xs x = length (takeWhile (\<lambda>y. y \<noteq> x) xs)"

section \<open>ContextManager (context\_manager.py)\<close>

text \<open>
  The constants of \<open>config.py\<close> the context manager reads; the shipped values are
  \<open>default_config\<close>.
\<close>

record config =
  CONTEXT_MAX_MESSAGES :: int
  CONTEXT_TIMEOUT_MINUTES :: int
  CONTEXT_MAX_TOKENS :: int

definition default_config :: config where
  "default_config =
     \<lparr>CONTEXT_MAX_MESSAGES = 10, CONTEXT_TIMEOUT_MINUTES = 30, CONTEXT_MAX_TOKENS = 4000\<rparr>"

text \<open>The dataclass \<open>ContextMessage\<close>; its generated equality compares the three fields.\<close>

record ContextMessage =
  msg_text :: pystr
  timestamp :: datetime
  message_id :: "int option"

text \<open>
  The two dictionaries of the manager, as association lists in insertion order:
  \<open>d[k] = v\<close> is \<open>AList.update\<close>, \<open>del d[k]\<close> is \<open>AList.delete\<close>, \<open>d[k]\<close> is \<open>map_of\<close>
  and \<open>d.keys()\<close> is \<open>map fst\<close>.
\<close>

record ContextManager =
  user_contexts :: "(int \<times> ContextMessage list) list"
  user_last_activity :: "(int \<times> datetime) list"

definition ContextManager_init :: "py_error + ContextManager" where
  "ContextManager_init = Inr \<lparr>user_contexts = [], user_last_activity = []\<rparr>"

definition add_message ::
  "config \<Rightarrow> ContextManager \<Rightarrow> int \<Rightarrow> pystr \<Rightarrow> int option \<Rightarrow> datetime \<Rightarrow> ContextManager" where
  "add_message cfg cm user_id txt mid now =
     (if txt = [] \<or> int (length (strip txt)) < 5 then cm
      else
        (let messages = (case map_of (user_contexts cm) user_id of None \<Rightarrow> [] | Some ms \<Rightarrow> ms);
             message = \<lparr>msg_text = strip txt, timestamp = now, message_id = mid\<rparr>;
             messages = messages @ [message];
             messages = (if int (length messages) > CONTEXT_MAX_MESSAGES cfg
                         then slice_from messages (- CONTEXT_MAX_MESSAGES cfg)
                         else messages)
         in cm\<lparr>user_contexts := AList.update user_id messages (user_contexts cm),
                user_last_activity := AList.update user_id now (user_last_activity cm)\<rparr>))"

definition is_context_expired :: "config \<Rightarrow> ContextManager \<Rightarrow> int \<Rightarrow> datetime \<Rightarrow> bool" where
  "is_context_expired cfg cm user_id now =
     (case map_of (user_last_activity cm) user_id of
        None \<Rightarrow> True
      | Some last_activity \<Rightarrow> now - last_activity > timedelta_minutes (CONTEXT_TIMEOUT_MINUTES cfg))"

definition clear_context :: "ContextManager \<Rightarrow> int \<Rightarrow> ContextManager" where
  "clear_context cm user_id =
     cm\<lparr>user_contexts := AList.delete user_id (user_contexts cm),
        user_last_activity := AList.delete user_id (user_last_activity cm)\<rparr>"

definition has_context ::
  "config \<Rightarrow> ContextManager \<Rightarrow> int \<Rightarrow> datetime \<Rightarrow> ContextManager \<times> bool" where
  "has_context cfg cm user_id now =
     (case map_of (user_contexts cm) user_id of
        None \<Rightarrow> (cm, False)
      | Some messages \<Rightarrow>
          if messages = [] then (cm, False)
          else if is_context_expired cfg cm user_id now then (clear_context cm user_id, False)
          else (cm, True))"

definition get_message_count ::
  "config \<Rightarrow> ContextManager \<Rightarrow> int \<Rightarrow> datetime \<Rightarrow> ContextManager \<times> (py_error + int)" where
  "get_message_count cfg cm user_id now =
     (let (cm1, b) = has_context cfg cm user_id now
      in if \<not> b then (cm1, Inr 0)
         else (case map_of (user_contexts cm1) user_id of
                 None \<Rightarrow> (cm1, Inl KeyError)
               | Some messages \<Rightarrow> (cm1, Inr (int (length messages)))))"

text \<open>\<open>msg.timestamp.strftime("%H:%M:%S")\<close>.\<close>

definition two_digits :: "int \<Rightarrow> pystr" where
  "two_digits v = [48 + nat (v div 10), 48 + nat (v mod 10)]"

definition strftime_HMS :: "datetime \<Rightarrow> pystr" where
  "strftime_HMS t =
     two_digits ((t div 3600000000) mod 24) @ [58] @
     two_digits ((t div 60000000) mod 60) @ [58] @
     two_digits ((t div 1000000) mod 60)"

text \<open>
  The block of one message, \<open>f"[\<dots> {i}, {time_str}]\n{msg.text}"\<close>, where the label word
  is the nine Cyrillic letters of the source, and the separator \<open>"\n\n---\n\n"\<close>.
\<close>

definition label_word :: pystr where
  "label_word = [1057, 1086, 1086, 1073, 1097, 1077, 1085, 1080, 1077]"

definition format_part :: "nat \<Rightarrow> ContextMessage \<Rightarrow> pystr" where
  "format_part i msg =
     [91] @ label_word @ [32] @ str_nat i @ [44, 32] @ strftime_HMS (timestamp msg) @
     [93, 10] @ msg_text msg"

definition separator :: pystr where
  "separator = [10, 10, 45, 45, 45, 10, 10]"

text \<open>
  The loop of \<open>_truncate_context\<close>, \<open>for i in range(len(messages), 0, -1)\<close>, from the
  value \<open>i\<close> on: the rendering of the last \<open>i\<close> messages is returned when it has at most
  \<open>max_chars\<close> characters; \<open>None\<close> when the loop ends without returning.
\<close>

fun truncate_loop :: "ContextMessage list \<Rightarrow> int \<Rightarrow> nat \<Rightarrow> pystr option" where
  "truncate_loop messages max_chars 0 = None"
| "truncate_loop messages max_chars (Suc k) =
     (let i = Suc k;
          suffix = slice_from messages (- int i);
          context_parts =
            map (\<lambda>msg. format_part (length messages - i + index_of suffix msg + 1) msg) suffix;
          context_text = join separator context_parts
      in if int (length context_text) \<le> max_chars then Some context_text
         else truncate_loop messages max_chars k)"

definition truncate_context :: "ContextManager \<Rightarrow> int \<Rightarrow> int \<Rightarrow> py_error + pystr" where
  "truncate_context cm user_id max_tokens =
     (case map_of (user_contexts cm) user_id of
        None \<Rightarrow> Inl KeyError
      | Some messages \<Rightarrow>
          (let max_chars = max_tokens * 4
           in case truncate_loop messages max_chars (length messages) of
                Some context_text \<Rightarrow> Inr context_text
              | None \<Rightarrow>
                  if messages \<noteq> [] then Inr (slice_to (msg_text (last messages)) max_chars)
                  else Inr []))"

text \<open>The full rendering built by \<open>get_context_text\<close>, numbering the messages from 1.\<close>

definition render_all :: "ContextMessage list \<Rightarrow> pystr" where
  "render_all messages =
     join separator
       (map (\<lambda>(i, msg). format_part i msg) (zip [1 ..< Suc (length messages)] messages))"

definition get_context_text ::
  "config \<Rightarrow> ContextManager \<Rightarrow> int \<Rightarrow> datetime \<Rightarrow> ContextManager \<times> (py_error + pystr option)" where
  "get_context_text cfg cm user_id now =
     (case map_of (user_contexts cm) user_id of
        None \<Rightarrow> (cm, Inr None)
      | Some messages \<Rightarrow>
          if messages = [] then (cm, Inr None)
          else if is_context_expired cfg cm user_id now
          then (clear_context cm user_id, Inr None)
          else
            (let context_text = render_all messages;
                 estimated_tokens = int (length context_text) div 4
             in if estimated_tokens > CONTEXT_MAX_TOKENS cfg
                then (case truncate_context cm user_id (CONTEXT_MAX_TOKENS cfg) of
                        Inl e \<Rightarrow> (cm, Inl e)
                      | Inr s \<Rightarrow> (cm, Inr (Some s)))
                else (cm, Inr (Some context_text))))"

text \<open>
  \<open>cleanup_expired_contexts\<close> is declared \<open>-> None\<close> and has no \<open>return\<close> statement; the
  list \<open>expired_users\<close> it builds is only logged.
\<close>

datatype py_value = PyNone | PyInt int

definition expired_users :: "config \<Rightarrow> ContextManager \<Rightarrow> datetime \<Rightarrow> int list" where
  "expired_users cfg cm now =
     filter (\<lambda>user_id. is_context_expired cfg cm user_id now) (map fst (user_contexts cm))"

definition cleanup_expired_contexts ::
  "config \<Rightarrow> ContextManager \<Rightarrow> datetime \<Rightarrow> ContextManager \<times> py_value" where
  "cleanup_expired_contexts cfg cm now =
     (fold (\<lambda>user_id cm1. clear_context cm1 user_id) (expired_users cfg cm now) cm, PyNone)"

text \<open>The entries stored for a user (none when the user has no buffer).\<close>

definition entries :: "ContextManager \<Rightarrow> int \<Rightarrow> ContextMessage list" where
  "entries cm user_id = (case map_of (user_contexts cm) user_id of None \<Rightarrow> [] | Some ms \<Rightarrow> ms)"

text \<open>
  A sequence of \<open>add_message\<close> calls of one user, each given by its text, message id and
  clock reading.
\<close>

fun add_messages ::
  "config \<Rightarrow> ContextManager \<Rightarrow> int \<Rightarrow> (pystr \<times> int option \<times> datetime) list \<Rightarrow> ContextManager" where
  "add_messages cfg cm user_id [] = cm"
| "add_messages cfg cm user_id ((txt, mid, now) # calls) =
     add_messages cfg (add_message cfg cm user_id txt mid now) user_id calls"

text \<open>Whether a call passes the length check of \<open>add_message\<close>, and the entry it creates.\<close>

definition accepted :: "pystr \<times> int option \<times> datetime \<Rightarrow> bool" where
  "accepted call = (5 \<le> length (strip (fst call)))"

definition entry_of :: "pystr \<times> int option \<times> datetime \<Rightarrow> ContextMessage" where
  "entry_of call =
     \<lparr>msg_text = strip (fst call), timestamp = snd (snd call), message_id = fst (snd call)\<rparr>"

text \<open>The last \<open>n\<close> elements of a list, in order.\<close>

definition most_recent :: "nat \<Rightarrow> 'a list \<Rightarrow> 'a list" where
  "most_recent n xs = drop (length xs - n) xs"

text \<open>
  The rendering of the last \<open>i\<close> messages, each keeping the number it has in the whole
  buffer.
\<close>

definition render_suffix :: "ContextMessage list \<Rightarrow> nat \<Rightarrow> pystr" where
  "render_suffix messages i =
     join separator
       (map (\<lambda>(j, msg). format_part j msg)
          (zip [Suc (length messages - i) ..< Suc (length messages)]
               (drop (length messages - i) messages)))"

text \<open>The character budget \<open>max_chars\<close> of \<open>_truncate_context\<close>.\<close>

definition maxRenderedSize :: "config \<Rightarrow> int" where
  "maxRenderedSize cfg = CONTEXT_MAX_TOKENS cfg * 4"

text \<open>The text a rendering produces for a non-empty, non-expired buffer.\<close>

definition rendered :: "config \<Rightarrow> ContextManager \<Rightarrow> int \<Rightarrow> py_error + pystr option" where
  "rendered cfg cm u =
     (if int (length (render_all (entries cm u))) div 4 > CONTEXT_MAX_TOKENS cfg
      then map_sum id Some (truncate_context cm u (CONTEXT_MAX_TOKENS cfg))
      else Inr (Some (render_all (entries cm u))))"

section \<open>The sliding window of the rate limiter\<close>

lemma history_is_allowed:
  "history (fst (is_allowed rl u now)) v =
     (if v = u then
        (let pruned = filter (\<lambda>t. now - timedelta_seconds (time_window rl) < t) (history rl u)
         in if max_messages rl \<le> int (length pruned) then pruned else pruned @ [now])
      else history rl v)"
  by (simp add: is_allowed_def defaultdict_get_def history_def Let_def split: option.split)

lemma snd_is_allowed:
  "snd (is_allowed rl u now) =
     (int (length (filter (\<lambda>t. now - timedelta_seconds (time_window rl) < t) (history rl u)))
        < max_messages rl)"
  by (auto simp add: is_allowed_def defaultdict_get_def history_def Let_def split: option.split)

lemma params_is_allowed:
  "max_messages (fst (is_allowed rl u now)) = max_messages rl"
  "time_window (fst (is_allowed rl u now)) = time_window rl"
  by (simp_all add: is_allowed_def defaultdict_get_def Let_def split: option.split prod.split)

lemma admit_calls_Cons:
  "admit_calls rl (c # cs) =
     (fst (admit_calls (fst (is_allowed rl (fst c) (snd c))) cs),
      snd (is_allowed rl (fst c) (snd c)) # snd (admit_calls (fst (is_allowed rl (fst c) (snd c))) cs))"
  by (simp add: Let_def case_prod_beta)

lemma admit_calls_append:
  "admit_calls rl (cs @ ds) =
     (fst (admit_calls (fst (admit_calls rl cs)) ds),
      snd (admit_calls rl cs) @ snd (admit_calls (fst (admit_calls rl cs)) ds))"
  by (induction cs arbitrary: rl) (simp_all add: admit_calls_Cons del: admit_calls.simps(2))

lemma length_admit_calls: "length (snd (admit_calls rl cs)) = length cs"
  by (induction cs arbitrary: rl) (simp_all add: admit_calls_Cons del: admit_calls.simps(2))

lemma params_admit_calls:
  "max_messages (fst (admit_calls rl cs)) = max_messages rl \<and>
   time_window (fst (admit_calls rl cs)) = time_window rl"
  by (induction cs arbitrary: rl)
     (simp_all add: admit_calls_Cons params_is_allowed del: admit_calls.simps(2))

lemma admitted_snoc:
  "length bs = length cs \<Longrightarrow>
   admitted u (cs @ [c]) (bs @ [b]) =
     admitted u cs bs @ (if fst c = u \<and> b then [snd c] else [])"
  by (simp add: admitted_def)

lemma admitted_times: "set (admitted u cs bs) \<subseteq> snd ` set cs"
  by (auto simp: admitted_def dest!: set_zip_leftD)


lemma window_invariant:
  assumes "sorted (map snd cs)" and "0 \<le> max_messages rl" and "history rl u = []"
  shows "(\<forall>c. (\<forall>t\<in>snd ` set cs. t - timedelta_seconds (time_window rl) \<le> c) \<longrightarrow>
            filter (\<lambda>a. c < a) (admitted u cs (snd (admit_calls rl cs))) =
            filter (\<lambda>a. c < a) (history (fst (admit_calls rl cs)) u)) \<and>
         (\<forall>T. int (length (filter (\<lambda>a. T - timedelta_seconds (time_window rl) < a \<and> a \<le> T)
                   (admitted u cs (snd (admit_calls rl cs))))) \<le> max_messages rl)"
  using assms(1)
proof (induction cs rule: rev_induct)
  case Nil
  show ?case using assms(2,3) by (simp add: admitted_def)
next
  case (snoc c cs)
  define W where "W = timedelta_seconds (time_window rl)"
  define rl1 where "rl1 = fst (admit_calls rl cs)"
  define bs where "bs = snd (admit_calls rl cs)"
  define adm where "adm = admitted u cs bs"
  define h where "h = history rl1 u"
  define n where "n = snd c"
  define pruned where "pruned = filter (\<lambda>t. n - W < t) h"
  define b where "b = snd (is_allowed rl1 (fst c) n)"
  have srt: "sorted (map snd cs)" and le_n: "\<forall>t\<in>snd ` set cs. t \<le> n"
    using snoc.prems by (auto simp: sorted_append n_def)
  have IH1: "\<And>k. (\<forall>t\<in>snd ` set cs. t - W \<le> k) \<Longrightarrow>
               filter (\<lambda>a. k < a) adm = filter (\<lambda>a. k < a) h"
    and IH2: "\<And>T. int (length (filter (\<lambda>a. T - W < a \<and> a \<le> T) adm)) \<le> max_messages rl"
    using snoc.IH[OF srt] by (simp_all add: W_def rl1_def bs_def adm_def h_def)
  have par: "max_messages rl1 = max_messages rl" "time_window rl1 = time_window rl"
    using params_admit_calls[of rl cs] by (simp_all add: rl1_def)
  have len: "length bs = length cs" by (simp add: bs_def length_admit_calls)
  have run: "admit_calls rl (cs @ [c]) = (fst (is_allowed rl1 (fst c) n), bs @ [b])"
    by (simp add: admit_calls_append admit_calls_Cons rl1_def bs_def b_def n_def
             del: admit_calls.simps(2))
  have adm': "admitted u (cs @ [c]) (bs @ [b]) = adm @ (if fst c = u \<and> b then [n] else [])"
    using admitted_snoc[OF len] by (simp add: adm_def n_def)
  have adm_le: "\<forall>a\<in>set adm. a \<le> n"
    using admitted_times[of u cs bs] le_n by (auto simp: adm_def)
  have b_eq: "fst c = u \<Longrightarrow> b = (int (length pruned) < max_messages rl)"
    by (simp add: b_def snd_is_allowed par pruned_def h_def W_def)
  have h': "history (fst (is_allowed rl1 (fst c) n)) u =
              (if fst c = u then (if b then pruned @ [n] else pruned) else h)"
    using b_eq by (auto simp add: history_is_allowed par Let_def pruned_def h_def W_def)
  have part1: "filter (\<lambda>a. k < a) (adm @ (if fst c = u \<and> b then [n] else [])) =
               filter (\<lambda>a. k < a) (if fst c = u then (if b then pruned @ [n] else pruned) else h)"
    if k: "\<forall>t\<in>snd ` set (cs @ [c]). t - W \<le> k" for k
  proof -
    have k1: "\<forall>t\<in>snd ` set cs. t - W \<le> k" and k2: "n - W \<le> k"
      using k by (auto simp: n_def)
    have "filter (\<lambda>a. k < a) pruned = filter (\<lambda>a. k < a) h"
      unfolding pruned_def using k2 by (auto intro!: filter_cong)
    with IH1[OF k1] show ?thesis by simp
  qed
  have part2: "int (length (filter (\<lambda>a. T - W < a \<and> a \<le> T)
                  (adm @ (if fst c = u \<and> b then [n] else [])))) \<le> max_messages rl" for T
  proof (cases "fst c = u \<and> b \<and> T - W < n \<and> n \<le> T")
    case False
    then show ?thesis using IH2[of T] by auto
  next
    case True
    have "filter (\<lambda>a. T - W < a \<and> a \<le> T) adm = filter (\<lambda>a. T - W < a) adm"
      using adm_le True by (auto intro!: filter_cong)
    also have "\<dots> = filter (\<lambda>a. T - W < a) h"
      using True le_n by (intro IH1) auto
    also have "\<dots> = filter (\<lambda>a. T - W < a) pruned"
      unfolding pruned_def using True by (auto intro!: filter_cong)
    finally have "length (filter (\<lambda>a. T - W < a \<and> a \<le> T) adm) \<le> length pruned"
      by simp
    moreover have "int (length pruned) < max_messages rl" using True b_eq by simp
    ultimately show ?thesis using True by simp
  qed
  show ?case
    unfolding run fst_conv snd_conv adm' h' W_def[symmetric]
    using part1 part2 by blast
qed

text \<open>
  Claim C1.  Take a limiter as constructed, with a non-negative \<open>max_messages\<close>, and any
  sequence of \<open>is_allowed\<close> calls (of any users) whose clock readings do not decrease.
  Then for every user and every instant \<open>T\<close>, the admitted calls of that user whose time
  lies in the trailing window \<open>(T - time_window, T]\<close> number at most \<open>max_messages\<close>.
  Moreover, in any state, \<open>is_allowed\<close> answers true exactly when the timestamps left after
  removing those \<open>\<le> now - time_window\<close> number fewer than \<open>max_messages\<close>; the log of the
  user is afterwards the pruned list, with \<open>now\<close> appended exactly when the call was
  admitted, and the logs of the other users are unchanged.
\<close>

theorem C1_sliding_window:
  assumes "RateLimiter_init mm tw = Inr rl0" and "0 \<le> mm" and "sorted (map snd cs)"
  shows "int (length (filter (\<lambda>a. T - timedelta_seconds tw < a \<and> a \<le> T)
                 (admitted u cs (snd (admit_calls rl0 cs))))) \<le> mm \<and>
         snd (is_allowed rl u now) =
           (int (length (filter (\<lambda>t. \<not> t \<le> now - timedelta_seconds (time_window rl))
                           (history rl u))) < max_messages rl) \<and>
         history (fst (is_allowed rl u now)) u =
           filter (\<lambda>t. \<not> t \<le> now - timedelta_seconds (time_window rl)) (history rl u) @
           (if snd (is_allowed rl u now) then [now] else []) \<and>
         (v \<noteq> u \<longrightarrow> history (fst (is_allowed rl u now)) v = history rl v)"
proof -
  have rl0: "rl0 = \<lparr>max_messages = mm, time_window = tw, user_messages = Map.empty\<rparr>"
    using assms(1) by (simp add: RateLimiter_init_def)
  have "0 \<le> max_messages rl0" and "history rl0 u = []"
    using assms(2) by (simp_all add: rl0 history_def)
  from window_invariant[OF assms(3) this]
  have bound: "int (length (filter (\<lambda>a. T - timedelta_seconds tw < a \<and> a \<le> T)
                 (admitted u cs (snd (admit_calls rl0 cs))))) \<le> mm"
    by (simp add: rl0)
  have ord: "(\<lambda>t::int. \<not> t \<le> c) = (\<lambda>t. c < t)" for c
    by (simp add: not_le)
  have answer: "snd (is_allowed rl u now) =
           (int (length (filter (\<lambda>t. \<not> t \<le> now - timedelta_seconds (time_window rl))
                           (history rl u))) < max_messages rl)"
    by (simp add: snd_is_allowed ord)
  then have log: "history (fst (is_allowed rl u now)) u =
           filter (\<lambda>t. \<not> t \<le> now - timedelta_seconds (time_window rl)) (history rl u) @
           (if snd (is_allowed rl u now) then [now] else [])"
    by (simp add: history_is_allowed ord Let_def)
  have others: "v \<noteq> u \<longrightarrow> history (fst (is_allowed rl u now)) v = history rl v"
    by (simp add: history_is_allowed)
  from bound answer log others show ?thesis by blast
qed

theorem C1_sliding_window_witness:
  "RateLimiter_init 2 60 = Inr \<lparr>max_messages = 2, time_window = 60, user_messages = Map.empty\<rparr> \<and>
   (0::int) \<le> 2 \<and>
   sorted (map snd [(7::int, 0::int), (7, 1000000), (7, 2000000), (8, 3000000), (7, 61000000)]) \<and>
   snd (admit_calls \<lparr>max_messages = 2, time_window = 60, user_messages = Map.empty\<rparr>
          [(7, 0), (7, 1000000), (7, 2000000), (8, 3000000), (7, 61000000)])
     = [True, True, False, True, True] \<and>
   int (length (filter (\<lambda>a. 61000000 - timedelta_seconds 60 < a \<and> a \<le> 61000000)
      (admitted 7 [(7, 0), (7, 1000000), (7, 2000000), (8, 3000000), (7, 61000000)]
         (snd (admit_calls \<lparr>max_messages = 2, time_window = 60, user_messages = Map.empty\<rparr>
            [(7, 0), (7, 1000000), (7, 2000000), (8, 3000000), (7, 61000000)]))))) \<le> 2 \<and>
   (8::int) \<noteq> 7 \<and>
   history (fst (is_allowed \<lparr>max_messages = 1, time_window = 60, user_messages = [7 \<mapsto> [0], 8 \<mapsto> [5]]\<rparr>
                   7 30000000)) 8 = [5] \<and>
   snd (is_allowed \<lparr>max_messages = 1, time_window = 60, user_messages = [7 \<mapsto> [0], 8 \<mapsto> [5]]\<rparr>
                   7 30000000) = False \<and>
   history (fst (is_allowed \<lparr>max_messages = 1, time_window = 60, user_messages = [7 \<mapsto> [0], 8 \<mapsto> [5]]\<rparr>
                   7 30000000)) 7 = [0]"
proof -
  have i: "RateLimiter_init 2 60 =
             Inr \<lparr>max_messages = 2, time_window = 60, user_messages = Map.empty\<rparr>"
    by (simp add: RateLimiter_init_def)
  have s: "sorted (map snd [(7::int, 0::int), (7, 1000000), (7, 2000000), (8, 3000000), (7, 61000000)])"
    by simp
  have r: "snd (admit_calls \<lparr>max_messages = 2, time_window = 60, user_messages = Map.empty\<rparr>
          [(7, 0), (7, 1000000), (7, 2000000), (8, 3000000), (7, 61000000)])
     = [True, True, False, True, True]"
    by (simp add: is_allowed_def defaultdict_get_def timedelta_seconds_def Let_def)
  have h: "history \<lparr>max_messages = 1, time_window = 60, user_messages = [7 \<mapsto> [0], 8 \<mapsto> [5]]\<rparr> 7 = [0]"
          "history \<lparr>max_messages = 1, time_window = 60, user_messages = [7 \<mapsto> [0], 8 \<mapsto> [5]]\<rparr> 8 = [5]"
    by (simp_all add: history_def)
  show ?thesis
    using i s r
      C1_sliding_window[OF i _ s, where T = 61000000 and u = 7 and v = 8 and now = 30000000
        and rl = "\<lparr>max_messages = 1, time_window = 60, user_messages = [7 \<mapsto> [0], 8 \<mapsto> [5]]\<rparr>"]
    by (simp add: h timedelta_seconds_def)
qed

section \<open>Waiting time, pruning and construction\<close>

lemma history_get_wait_time: "history (fst (get_wait_time rl u now)) v = history rl v"
  by (simp add: get_wait_time_def defaultdict_get_def history_def Let_def split: option.split)

text \<open>
  Claim C6, as amended.  \<open>get_wait_time\<close> prunes nothing: it leaves the recorded timestamps
  of every user as they are.  Immediately after \<open>is_allowed\<close>, when \<open>time_window\<close> is not
  negative and no recorded timestamp of the user is later than \<open>now\<close>, every timestamp in the
  user's log lies within \<open>[now - time_window, now]\<close>.
\<close>

theorem C6_pruned_after_is_allowed:
  "history (fst (get_wait_time rl u now)) v = history rl v \<and>
   (0 \<le> time_window rl \<longrightarrow> (\<forall>t\<in>set (history rl u). t \<le> now) \<longrightarrow>
      (\<forall>t\<in>set (history (fst (is_allowed rl u now)) u).
         now - timedelta_seconds (time_window rl) \<le> t \<and> t \<le> now))"
  by (auto simp add: history_get_wait_time history_is_allowed Let_def timedelta_seconds_def)

theorem C6_pruned_after_is_allowed_witness:
  "history (fst (get_wait_time \<lparr>max_messages = 5, time_window = 60,
        user_messages = [7 \<mapsto> [0, 50000000]]\<rparr> 7 70000000)) 7 = [0, 50000000] \<and>
   (0::int) \<le> 60 \<and> (0::int) \<le> 70000000 \<and> (50000000::int) \<le> 70000000 \<and>
   history (fst (is_allowed \<lparr>max_messages = 5, time_window = 60,
        user_messages = [7 \<mapsto> [0, 50000000]]\<rparr> 7 70000000)) 7 = [50000000, 70000000] \<and>
   70000000 - timedelta_seconds 60 \<le> (50000000::int) \<and> (50000000::int) \<le> 70000000 \<and>
   70000000 - timedelta_seconds 60 \<le> (70000000::int)"
proof -
  have h: "history \<lparr>max_messages = 5, time_window = 60,
        user_messages = [7 \<mapsto> [0, 50000000]]\<rparr> 7 = [0, 50000000]"
    by (simp add: history_def)
  have a: "history (fst (is_allowed \<lparr>max_messages = 5, time_window = 60,
        user_messages = [7 \<mapsto> [0, 50000000]]\<rparr> 7 70000000)) 7 = [50000000, 70000000]"
    by (simp add: is_allowed_def defaultdict_get_def history_def timedelta_seconds_def)
  show ?thesis
    using C6_pruned_after_is_allowed[of "\<lparr>max_messages = 5, time_window = 60,
        user_messages = [7 \<mapsto> [0, 50000000]]\<rparr>" 7 70000000 7]
    by (simp add: h a timedelta_seconds_def)
qed

theorem C6_counterexample:
  "history (fst (get_wait_time \<lparr>max_messages = 5, time_window = 60,
        user_messages = [7 \<mapsto> [0]]\<rparr> 7 100000000)) 7 = [0] \<and>
   \<not> (100000000 - timedelta_seconds 60 \<le> (0::int))"
  by (simp add: get_wait_time_def defaultdict_get_def history_def timedelta_seconds_def)

text \<open>
  The value of \<open>get_wait_time\<close> for a user with recorded timestamps: the time until the
  oldest one leaves the window, in whole seconds, rounded down and not below 0.
\<close>

lemma get_wait_time_value:
  assumes "history rl u \<noteq> []"
  shows "snd (get_wait_time rl u now) =
           max 0 ((Min (set (history rl u)) + timedelta_seconds (time_window rl) - now)
                    div 1000000)"
proof -
  obtain x xs where h: "history rl u = x # xs"
    using assms by (cases "history rl u") auto
  then have m: "user_messages rl u = Some (x # xs)"
    by (auto simp add: history_def split: option.splits)
  have f: "fold min xs x = Min (set (x # xs))"
    by (simp only: Min.set_eq_fold)
  have "snd (get_wait_time rl u now) =
          max 0 (int_total_seconds (fold min xs x + timedelta_seconds (time_window rl) - now))"
    by (simp add: get_wait_time_def defaultdict_get_def m Let_def)
  also have "\<dots> = max 0 ((fold min xs x + timedelta_seconds (time_window rl) - now) div 1000000)"
    by (auto simp add: int_total_seconds_def max_def)
  finally show ?thesis by (simp only: h f)
qed

text \<open>
  Claim C3.  With one slot, a window of 60 seconds and a message recorded at time 0, a
  call 59.5 seconds later is rejected, \<open>get_wait_time\<close> then answers 0, and the retry 0
  seconds later is rejected again; the waiting time left is half a second, whose ceiling
  is 1, and the retry one second later is admitted.
\<close>

theorem C3_wait_time_truncated:
  "snd (is_allowed \<lparr>max_messages = 1, time_window = 60, user_messages = [7 \<mapsto> [0]]\<rparr>
          7 59500000) = False \<and>
   snd (get_wait_time (fst (is_allowed \<lparr>max_messages = 1, time_window = 60,
          user_messages = [7 \<mapsto> [0]]\<rparr> 7 59500000)) 7 59500000) = 0 \<and>
   snd (is_allowed (fst (is_allowed \<lparr>max_messages = 1, time_window = 60,
          user_messages = [7 \<mapsto> [0]]\<rparr> 7 59500000)) 7 (59500000 + timedelta_seconds 0)) = False \<and>
   snd (is_allowed (fst (is_allowed \<lparr>max_messages = 1, time_window = 60,
          user_messages = [7 \<mapsto> [0]]\<rparr> 7 59500000)) 7 (59500000 + timedelta_seconds 1)) = True"
  by (simp add: is_allowed_def get_wait_time_def defaultdict_get_def timedelta_seconds_def
        int_total_seconds_def)

text \<open>
  Claim C8, as amended.  Construction never fails and checks nothing: the rate limiter
  stores \<open>max_messages\<close> and \<open>time_window\<close> as given, whatever their sign, and the context
  manager is constructed without any configuration value.  A limiter whose \<open>max_messages\<close>
  is not positive rejects every call.
\<close>

theorem C8_construction_unchecked:
  "RateLimiter_init mm tw =
     Inr \<lparr>max_messages = mm, time_window = tw, user_messages = Map.empty\<rparr> \<and>
   ContextManager_init = Inr \<lparr>user_contexts = [], user_last_activity = []\<rparr> \<and>
   (max_messages rl \<le> 0 \<longrightarrow> snd (is_allowed rl u now) = False)"
  by (auto simp add: RateLimiter_init_def ContextManager_init_def is_allowed_def
        defaultdict_get_def Let_def split: option.split)

theorem C8_construction_unchecked_witness:
  "RateLimiter_init (- 1) (- 5) =
     Inr \<lparr>max_messages = - 1, time_window = - 5, user_messages = Map.empty\<rparr> \<and>
   max_messages \<lparr>max_messages = - 1, time_window = - 5, user_messages = Map.empty\<rparr> \<le> 0 \<and>
   snd (is_allowed \<lparr>max_messages = - 1, time_window = - 5, user_messages = Map.empty\<rparr> 7 0) = False"
  using C8_construction_unchecked[of "- 1" "- 5"
      "\<lparr>max_messages = - 1, time_window = - 5, user_messages = Map.empty\<rparr>" 7 0]
  by simp

theorem C8_counterexample:
  "\<not> isl (RateLimiter_init 0 (- 5)) \<and>
   max_messages (projr (RateLimiter_init 0 (- 5))) = 0 \<and>
   time_window (projr (RateLimiter_init 0 (- 5))) = - 5 \<and>
   \<not> isl ContextManager_init"
  by (simp add: RateLimiter_init_def ContextManager_init_def)

section \<open>The context store\<close>

lemma entries_clear_context:
  "entries (clear_context cm u) v = (if v = u then [] else entries cm v)"
  by (simp add: entries_def clear_context_def delete_conv')

lemma last_activity_clear_context:
  "map_of (user_last_activity (clear_context cm u)) v =
     (if v = u then None else map_of (user_last_activity cm) v)"
  by (simp add: clear_context_def delete_conv')

lemma contexts_clear_context:
  "map_of (user_contexts (clear_context cm u)) v =
     (if v = u then None else map_of (user_contexts cm) v)"
  by (simp add: clear_context_def delete_conv')

lemma has_context_eq:
  "has_context cfg cm u now =
     (if entries cm u = [] then (cm, False)
      else if is_context_expired cfg cm u now then (clear_context cm u, False)
      else (cm, True))"
  by (simp add: has_context_def entries_def split: option.split)

lemma truncate_context_returns:
  "map_of (user_contexts cm) u = Some ms \<Longrightarrow> \<exists>s. truncate_context cm u mt = Inr s"
  by (simp add: truncate_context_def Let_def split: option.split)

lemma truncate_context_entries:
  "entries cm u \<noteq> [] \<Longrightarrow> \<exists>s. truncate_context cm u mt = Inr s"
  by (auto simp add: entries_def truncate_context_def Let_def split: option.splits)

lemma get_context_text_eq:
  "get_context_text cfg cm u now =
     (if entries cm u = [] then (cm, Inr None)
      else if is_context_expired cfg cm u now then (clear_context cm u, Inr None)
      else (cm, rendered cfg cm u))"
  by (auto simp add: get_context_text_def rendered_def entries_def Let_def
        split: option.split sum.split)

lemma rendered_Some: "entries cm u \<noteq> [] \<Longrightarrow> \<exists>s. rendered cfg cm u = Inr (Some s)"
  using truncate_context_entries[of cm u "CONTEXT_MAX_TOKENS cfg"]
  by (auto simp add: rendered_def)

lemma is_context_expired_Some:
  "map_of (user_last_activity cm) u = Some la \<Longrightarrow>
   is_context_expired cfg cm u now = (now - la > timedelta_minutes (CONTEXT_TIMEOUT_MINUTES cfg))"
  by (simp add: is_context_expired_def)

text \<open>
  Claim C5.  For a user whose last activity is \<open>la\<close>, the expiry test is
  \<open>now - la > ttl\<close>, where \<open>ttl\<close> is \<open>CONTEXT_TIMEOUT_MINUTES\<close> minutes.  Once more than
  \<open>ttl\<close> has passed, \<open>has_context\<close> answers false and \<open>get_context_text\<close> answers \<open>None\<close>,
  without any call of \<open>cleanup_expired_contexts\<close>; the user has no entries afterwards, and
  a non-empty buffer is removed together with its activity record.  A non-empty buffer
  that is exactly \<open>ttl\<close> old is not expired: \<open>has_context\<close> answers true and
  \<open>get_context_text\<close> returns a text, both leaving the state as it is.
\<close>

theorem C5_lazy_expiry:
  assumes "map_of (user_last_activity cm) u = Some la"
  shows "is_context_expired cfg cm u now =
           (now - la > timedelta_minutes (CONTEXT_TIMEOUT_MINUTES cfg)) \<and>
         (now - la > timedelta_minutes (CONTEXT_TIMEOUT_MINUTES cfg) \<longrightarrow>
            snd (has_context cfg cm u now) = False \<and>
            snd (get_context_text cfg cm u now) = Inr None \<and>
            entries (fst (has_context cfg cm u now)) u = [] \<and>
            entries (fst (get_context_text cfg cm u now)) u = [] \<and>
            (entries cm u \<noteq> [] \<longrightarrow>
               fst (has_context cfg cm u now) = clear_context cm u \<and>
               fst (get_context_text cfg cm u now) = clear_context cm u \<and>
               map_of (user_contexts (clear_context cm u)) u = None \<and>
               map_of (user_last_activity (clear_context cm u)) u = None)) \<and>
         (now - la = timedelta_minutes (CONTEXT_TIMEOUT_MINUTES cfg) \<and> entries cm u \<noteq> [] \<longrightarrow>
            has_context cfg cm u now = (cm, True) \<and>
            (\<exists>s. get_context_text cfg cm u now = (cm, Inr (Some s))))"
  using rendered_Some[of cm u cfg]
  by (auto simp add: is_context_expired_Some[OF assms] has_context_eq get_context_text_eq
        entries_clear_context contexts_clear_context last_activity_clear_context)

theorem C5_lazy_expiry_witness:
  "map_of (user_last_activity
      \<lparr>user_contexts = [(1, [\<lparr>msg_text = [104, 101, 108, 108, 111], timestamp = 0, message_id = None\<rparr>])],
       user_last_activity = [(1, 0)]\<rparr>) 1 = Some 0 \<and>
   1800000001 - 0 > timedelta_minutes (CONTEXT_TIMEOUT_MINUTES default_config) \<and>
   entries \<lparr>user_contexts = [(1, [\<lparr>msg_text = [104, 101, 108, 108, 111], timestamp = 0, message_id = None\<rparr>])],
       user_last_activity = [(1, 0)]\<rparr> 1 \<noteq> [] \<and>
   has_context default_config
      \<lparr>user_contexts = [(1, [\<lparr>msg_text = [104, 101, 108, 108, 111], timestamp = 0, message_id = None\<rparr>])],
       user_last_activity = [(1, 0)]\<rparr> 1 1800000001 =
     (\<lparr>user_contexts = [], user_last_activity = []\<rparr>, False) \<and>
   get_context_text default_config
      \<lparr>user_contexts = [(1, [\<lparr>msg_text = [104, 101, 108, 108, 111], timestamp = 0, message_id = None\<rparr>])],
       user_last_activity = [(1, 0)]\<rparr> 1 1800000001 =
     (\<lparr>user_contexts = [], user_last_activity = []\<rparr>, Inr None) \<and>
   1800000000 - 0 = timedelta_minutes (CONTEXT_TIMEOUT_MINUTES default_config) \<and>
   snd (has_context default_config
      \<lparr>user_contexts = [(1, [\<lparr>msg_text = [104, 101, 108, 108, 111], timestamp = 0, message_id = None\<rparr>])],
       user_last_activity = [(1, 0)]\<rparr> 1 1800000000) = True \<and>
   snd (get_context_text default_config
      \<lparr>user_contexts = [(1, [\<lparr>msg_text = [104, 101, 108, 108, 111], timestamp = 0, message_id = None\<rparr>])],
       user_last_activity = [(1, 0)]\<rparr> 1 1800000000) \<noteq> Inr None"
proof -
  let ?cm = "\<lparr>user_contexts = [(1::int, [\<lparr>msg_text = [104, 101, 108, 108, 111], timestamp = 0, message_id = None\<rparr>])],
       user_last_activity = [(1::int, 0::int)]\<rparr>"
  have a: "map_of (user_last_activity ?cm) 1 = Some 0" by simp
  have t: "timedelta_minutes (CONTEXT_TIMEOUT_MINUTES default_config) = 1800000000"
    by (simp add: timedelta_minutes_def default_config_def)
  have e: "entries ?cm 1 \<noteq> []" by (simp add: entries_def)
  have c: "clear_context ?cm 1 = \<lparr>user_contexts = [], user_last_activity = []\<rparr>"
    by (simp add: clear_context_def)
  show ?thesis
    using C5_lazy_expiry[OF a, of default_config 1800000001]
          C5_lazy_expiry[OF a, of default_config 1800000000] e
    by (auto simp add: t c prod_eq_iff)
qed

text \<open>
  Claim C9, as amended.  \<open>get_context_text\<close> leaves the whole state as it is unless the
  rendered user's buffer is non-empty and expired; in that case it removes that user's
  buffer and activity record.  The entries of every other user are never touched.  A
  second call at the same instant returns what the first returned, and so does a second
  call at another instant when the buffer is expired at neither.
\<close>

theorem C9_render_state:
  "(\<not> (entries cm u \<noteq> [] \<and> is_context_expired cfg cm u now) \<longrightarrow>
      fst (get_context_text cfg cm u now) = cm) \<and>
   (entries cm u \<noteq> [] \<and> is_context_expired cfg cm u now \<longrightarrow>
      fst (get_context_text cfg cm u now) = clear_context cm u) \<and>
   (v \<noteq> u \<longrightarrow> entries (fst (get_context_text cfg cm u now)) v = entries cm v) \<and>
   snd (get_context_text cfg (fst (get_context_text cfg cm u now)) u now) =
     snd (get_context_text cfg cm u now) \<and>
   (\<not> is_context_expired cfg cm u now \<and> \<not> is_context_expired cfg cm u now' \<longrightarrow>
      snd (get_context_text cfg (fst (get_context_text cfg cm u now)) u now') =
        snd (get_context_text cfg cm u now))"
  by (simp add: get_context_text_eq entries_clear_context)

theorem C9_render_state_witness:
  "\<not> (entries \<lparr>user_contexts = [(1, [\<lparr>msg_text = [104, 101, 108, 108, 111], timestamp = 0, message_id = None\<rparr>]), (2, [\<lparr>msg_text = [104, 101, 108, 108, 111], timestamp = 0, message_id = None\<rparr>])],
       user_last_activity = [(1, 0), (2, 1800000000)]\<rparr> 1 \<noteq> [] \<and> is_context_expired default_config \<lparr>user_contexts = [(1, [\<lparr>msg_text = [104, 101, 108, 108, 111], timestamp = 0, message_id = None\<rparr>]), (2, [\<lparr>msg_text = [104, 101, 108, 108, 111], timestamp = 0, message_id = None\<rparr>])],
       user_last_activity = [(1, 0), (2, 1800000000)]\<rparr> 1 5) \<and>
   fst (get_context_text default_config \<lparr>user_contexts = [(1, [\<lparr>msg_text = [104, 101, 108, 108, 111], timestamp = 0, message_id = None\<rparr>]), (2, [\<lparr>msg_text = [104, 101, 108, 108, 111], timestamp = 0, message_id = None\<rparr>])],
       user_last_activity = [(1, 0), (2, 1800000000)]\<rparr> 1 5) = \<lparr>user_contexts = [(1, [\<lparr>msg_text = [104, 101, 108, 108, 111], timestamp = 0, message_id = None\<rparr>]), (2, [\<lparr>msg_text = [104, 101, 108, 108, 111], timestamp = 0, message_id = None\<rparr>])],
       user_last_activity = [(1, 0), (2, 1800000000)]\<rparr> \<and>
   entries \<lparr>user_contexts = [(1, [\<lparr>msg_text = [104, 101, 108, 108, 111], timestamp = 0, message_id = None\<rparr>]), (2, [\<lparr>msg_text = [104, 101, 108, 108, 111], timestamp = 0, message_id = None\<rparr>])],
       user_last_activity = [(1, 0), (2, 1800000000)]\<rparr> 1 \<noteq> [] \<and> is_context_expired default_config \<lparr>user_contexts = [(1, [\<lparr>msg_text = [104, 101, 108, 108, 111], timestamp = 0, message_id = None\<rparr>]), (2, [\<lparr>msg_text = [104, 101, 108, 108, 111], timestamp = 0, message_id = None\<rparr>])],
       user_last_activity = [(1, 0), (2, 1800000000)]\<rparr> 1 1800000001 \<and>
   fst (get_context_text default_config \<lparr>user_contexts = [(1, [\<lparr>msg_text = [104, 101, 108, 108, 111], timestamp = 0, message_id = None\<rparr>]), (2, [\<lparr>msg_text = [104, 101, 108, 108, 111], timestamp = 0, message_id = None\<rparr>])],
       user_last_activity = [(1, 0), (2, 1800000000)]\<rparr> 1 1800000001) =
     \<lparr>user_contexts = [(2, [\<lparr>msg_text = [104, 101, 108, 108, 111], timestamp = 0, message_id = None\<rparr>])], user_last_activity = [(2, 1800000000)]\<rparr> \<and>
   (2::int) \<noteq> 1 \<and>
   entries (fst (get_context_text default_config \<lparr>user_contexts = [(1, [\<lparr>msg_text = [104, 101, 108, 108, 111], timestamp = 0, message_id = None\<rparr>]), (2, [\<lparr>msg_text = [104, 101, 108, 108, 111], timestamp = 0, message_id = None\<rparr>])],
       user_last_activity = [(1, 0), (2, 1800000000)]\<rparr> 1 1800000001)) 2 = [\<lparr>msg_text = [104, 101, 108, 108, 111], timestamp = 0, message_id = None\<rparr>] \<and>
   \<not> is_context_expired default_config \<lparr>user_contexts = [(1, [\<lparr>msg_text = [104, 101, 108, 108, 111], timestamp = 0, message_id = None\<rparr>]), (2, [\<lparr>msg_text = [104, 101, 108, 108, 111], timestamp = 0, message_id = None\<rparr>])],
       user_last_activity = [(1, 0), (2, 1800000000)]\<rparr> 1 6 \<and>
   snd (get_context_text default_config (fst (get_context_text default_config \<lparr>user_contexts = [(1, [\<lparr>msg_text = [104, 101, 108, 108, 111], timestamp = 0, message_id = None\<rparr>]), (2, [\<lparr>msg_text = [104, 101, 108, 108, 111], timestamp = 0, message_id = None\<rparr>])],
       user_last_activity = [(1, 0), (2, 1800000000)]\<rparr> 1 5)) 1 6) =
     snd (get_context_text default_config \<lparr>user_contexts = [(1, [\<lparr>msg_text = [104, 101, 108, 108, 111], timestamp = 0, message_id = None\<rparr>]), (2, [\<lparr>msg_text = [104, 101, 108, 108, 111], timestamp = 0, message_id = None\<rparr>])],
       user_last_activity = [(1, 0), (2, 1800000000)]\<rparr> 1 5)"
proof -
  let ?cm = "\<lparr>user_contexts = [(1, [\<lparr>msg_text = [104, 101, 108, 108, 111], timestamp = 0, message_id = None\<rparr>]), (2, [\<lparr>msg_text = [104, 101, 108, 108, 111], timestamp = 0, message_id = None\<rparr>])],
       user_last_activity = [(1, 0), (2, 1800000000)]\<rparr>"
  have t: "timedelta_minutes (CONTEXT_TIMEOUT_MINUTES default_config) = 1800000000"
    by (simp add: timedelta_minutes_def default_config_def)
  have e: "entries ?cm 1 = [\<lparr>msg_text = [104, 101, 108, 108, 111], timestamp = 0, message_id = None\<rparr>]" "entries ?cm 2 = [\<lparr>msg_text = [104, 101, 108, 108, 111], timestamp = 0, message_id = None\<rparr>]"
    by (simp_all add: entries_def)
  have x: "is_context_expired default_config ?cm 1 1800000001"
          "\<not> is_context_expired default_config ?cm 1 5"
          "\<not> is_context_expired default_config ?cm 1 6"
    by (simp_all add: is_context_expired_def t)
  have c: "clear_context ?cm 1 =
             \<lparr>user_contexts = [(2, [\<lparr>msg_text = [104, 101, 108, 108, 111], timestamp = 0, message_id = None\<rparr>])], user_last_activity = [(2, 1800000000)]\<rparr>"
    by (simp add: clear_context_def)
  show ?thesis
    using C9_render_state[of ?cm 1 default_config 5 2 6]
          C9_render_state[of ?cm 1 default_config 1800000001 2 6]
    by (simp add: e x c entries_def get_context_text_eq)
qed

theorem C9_counterexample:
  "entries \<lparr>user_contexts = [(1, [\<lparr>msg_text = [104, 101, 108, 108, 111], timestamp = 0, message_id = None\<rparr>])],
       user_last_activity = [(1, 0)]\<rparr> 1 = [\<lparr>msg_text = [104, 101, 108, 108, 111], timestamp = 0, message_id = None\<rparr>] \<and>
   entries (fst (get_context_text default_config \<lparr>user_contexts = [(1, [\<lparr>msg_text = [104, 101, 108, 108, 111], timestamp = 0, message_id = None\<rparr>])],
       user_last_activity = [(1, 0)]\<rparr> 1 1800000001)) 1 = []"
  by (simp add: get_context_text_def entries_def is_context_expired_def clear_context_def
        timedelta_minutes_def default_config_def)

lemma add_message_rejected:
  "\<not> accepted (txt, mid, now) \<Longrightarrow> add_message cfg cm u txt mid now = cm"
  by (simp add: add_message_def accepted_def)

lemma accepted_nonempty: "accepted (txt, mid, now) \<Longrightarrow> txt \<noteq> []"
  by (auto simp add: accepted_def strip_def)

lemma cap_most_recent:
  "0 < M \<Longrightarrow>
   (if int (length l) > M then slice_from l (- M) else l) = most_recent (nat M) l"
  by (auto simp add: slice_from_def most_recent_def nat_diff_distrib' intro!: arg_cong2[of _ _ _ _ drop])

lemma entries_add_message:
  assumes "accepted (txt, mid, now)"
  shows "entries (add_message cfg cm u txt mid now) v =
           (if v = u
            then (if int (length (entries cm u @ [entry_of (txt, mid, now)])) > CONTEXT_MAX_MESSAGES cfg
                  then slice_from (entries cm u @ [entry_of (txt, mid, now)]) (- CONTEXT_MAX_MESSAGES cfg)
                  else entries cm u @ [entry_of (txt, mid, now)])
            else entries cm v)"
  using assms accepted_nonempty[OF assms]
  by (simp add: add_message_def accepted_def entries_def entry_of_def update_conv' Let_def)

lemma last_activity_add_message:
  assumes "accepted (txt, mid, now)"
  shows "map_of (user_last_activity (add_message cfg cm u txt mid now)) v =
           (if v = u then Some now else map_of (user_last_activity cm) v)"
  using assms accepted_nonempty[OF assms]
  by (simp add: add_message_def accepted_def update_conv' Let_def)

lemma most_recent_append:
  "most_recent n (most_recent n xs @ ys) = most_recent n (xs @ ys)"
proof (cases "length xs \<le> n")
  case True
  then show ?thesis by (simp add: most_recent_def)
next
  case False
  then have a: "length xs - n + n + length ys - n = length xs - n + length ys"
    and b: "length xs + length ys - n = length xs - n + length ys"
    and c: "length xs - n + length ys - length xs = length ys - n"
    and d: "length xs - n + length ys - (length xs - n) = length ys"
    and e: "length xs - (length xs - n) = n"
    by arith+
  have "most_recent n (most_recent n xs @ ys) =
          drop (length ys) (drop (length xs - n) xs) @ drop (length ys - n) ys"
    by (simp add: most_recent_def e)
  moreover have "most_recent n (xs @ ys) =
          drop (length xs - n + length ys) xs @ drop (length ys - n) ys"
    by (simp add: most_recent_def b c)
  ultimately show ?thesis by (simp add: add.commute)
qed

lemma length_most_recent: "length (most_recent n xs) \<le> n"
  by (simp add: most_recent_def)

lemma most_recent_all: "length xs \<le> n \<Longrightarrow> most_recent n xs = xs"
  by (simp add: most_recent_def)

lemma most_recent_snoc_nonempty: "0 < n \<Longrightarrow> most_recent n (xs @ [y]) \<noteq> []"
  by (simp add: most_recent_def)

lemma last_most_recent_snoc: "0 < n \<Longrightarrow> last (most_recent n (xs @ [y])) = y"
  by (simp add: most_recent_def)

lemma entries_add_message_capped:
  assumes "accepted (tx, mid, now)" and "0 < CONTEXT_MAX_MESSAGES cfg"
  shows "entries (add_message cfg cm u tx mid now) u =
           most_recent (nat (CONTEXT_MAX_MESSAGES cfg)) (entries cm u @ [entry_of (tx, mid, now)])"
proof -
  have "entries (add_message cfg cm u tx mid now) u =
          (if int (length (entries cm u @ [entry_of (tx, mid, now)])) > CONTEXT_MAX_MESSAGES cfg
           then slice_from (entries cm u @ [entry_of (tx, mid, now)]) (- CONTEXT_MAX_MESSAGES cfg)
           else entries cm u @ [entry_of (tx, mid, now)])"
    by (simp only: entries_add_message[OF assms(1)] refl if_True)
  also have "\<dots> = most_recent (nat (CONTEXT_MAX_MESSAGES cfg))
                      (entries cm u @ [entry_of (tx, mid, now)])"
    by (rule cap_most_recent[OF assms(2)])
  finally show ?thesis .
qed

lemma add_messages_entries:
  assumes "0 < CONTEXT_MAX_MESSAGES cfg"
    and "int (length (entries cm u)) \<le> CONTEXT_MAX_MESSAGES cfg"
  shows "entries (add_messages cfg cm u calls) u =
           most_recent (nat (CONTEXT_MAX_MESSAGES cfg))
             (entries cm u @ map entry_of (filter accepted calls))"
  using assms(2)
proof (induction calls arbitrary: cm)
  case Nil
  then show ?case by (simp add: most_recent_all)
next
  case (Cons c calls)
  obtain tx mid now where c: "c = (tx, mid, now)" by (cases c)
  define n where "n = nat (CONTEXT_MAX_MESSAGES cfg)"
  have n: "0 < n" using assms(1) by (simp add: n_def)
  have old: "most_recent n (entries cm u) = entries cm u"
    using Cons.prems by (simp add: most_recent_all n_def)
  show ?case
  proof (cases "accepted c")
    case False
    then show ?thesis using Cons c by (simp add: add_message_rejected)
  next
    case True
    let ?cm = "add_message cfg cm u tx mid now"
    have e: "entries ?cm u = most_recent n (entries cm u @ [entry_of c])"
      using True assms(1) unfolding c n_def by (rule entries_add_message_capped)
    have "int (length (entries ?cm u)) \<le> CONTEXT_MAX_MESSAGES cfg"
      using length_most_recent[of n "entries cm u @ [entry_of c]"] assms(1)
      by (simp add: e n_def)
    from Cons.IH[OF this]
    have "entries (add_messages cfg ?cm u calls) u =
            most_recent n (most_recent n (entries cm u @ [entry_of c]) @
                             map entry_of (filter accepted calls))"
      by (simp add: e n_def)
    also have "\<dots> = most_recent n ((entries cm u @ [entry_of c]) @
                             map entry_of (filter accepted calls))"
      by (rule most_recent_append)
    finally show ?thesis using True c by (simp add: n_def)
  qed
qed

lemma get_message_count_eq:
  "get_message_count cfg cm u now =
     (if entries cm u = [] then (cm, Inr 0)
      else if is_context_expired cfg cm u now then (clear_context cm u, Inr 0)
      else (cm, Inr (int (length (entries cm u)))))"
  by (auto simp add: get_message_count_def has_context_eq entries_def split: option.splits)

text \<open>
  Claim C4.  \<open>add_message\<close> returns the state as it is when the stripped text has fewer
  than 5 characters.  Otherwise, with a positive \<open>CONTEXT_MAX_MESSAGES\<close>, the user's entries
  become the most recent \<open>CONTEXT_MAX_MESSAGES\<close> of the old entries followed by the new
  one, the new entry is the last, the last activity is \<open>now\<close>, and the count is within the
  cap.  After any sequence of calls, from a buffer within the cap, the entries are the
  most recent \<open>CONTEXT_MAX_MESSAGES\<close> of the old entries followed by the entries of the
  accepted calls, in call order, and the count is within the cap.
\<close>

theorem C4_append:
  "(length (strip tx) < 5 \<longrightarrow> add_message cfg cm u tx mid now = cm) \<and>
   (5 \<le> length (strip tx) \<and> 0 < CONTEXT_MAX_MESSAGES cfg \<longrightarrow>
      entries (add_message cfg cm u tx mid now) u =
        most_recent (nat (CONTEXT_MAX_MESSAGES cfg)) (entries cm u @ [entry_of (tx, mid, now)]) \<and>
      last (entries (add_message cfg cm u tx mid now) u) = entry_of (tx, mid, now) \<and>
      map_of (user_last_activity (add_message cfg cm u tx mid now)) u = Some now \<and>
      int (length (entries (add_message cfg cm u tx mid now) u)) \<le> CONTEXT_MAX_MESSAGES cfg) \<and>
   (0 < CONTEXT_MAX_MESSAGES cfg \<and> int (length (entries cm u)) \<le> CONTEXT_MAX_MESSAGES cfg \<longrightarrow>
      entries (add_messages cfg cm u calls) u =
        most_recent (nat (CONTEXT_MAX_MESSAGES cfg))
          (entries cm u @ map entry_of (filter accepted calls)) \<and>
      int (length (entries (add_messages cfg cm u calls) u)) \<le> CONTEXT_MAX_MESSAGES cfg)"
proof -
  have short: "add_message cfg cm u tx mid now = cm" if "length (strip tx) < 5"
    using that by (intro add_message_rejected) (simp add: accepted_def)
  have one: "entries (add_message cfg cm u tx mid now) u =
        most_recent (nat (CONTEXT_MAX_MESSAGES cfg)) (entries cm u @ [entry_of (tx, mid, now)]) \<and>
      last (entries (add_message cfg cm u tx mid now) u) = entry_of (tx, mid, now) \<and>
      map_of (user_last_activity (add_message cfg cm u tx mid now)) u = Some now \<and>
      int (length (entries (add_message cfg cm u tx mid now) u)) \<le> CONTEXT_MAX_MESSAGES cfg"
    if "5 \<le> length (strip tx)" and pos: "0 < CONTEXT_MAX_MESSAGES cfg"
  proof -
    have acc: "accepted (tx, mid, now)" using that by (simp add: accepted_def)
    have n: "0 < nat (CONTEXT_MAX_MESSAGES cfg)" using pos by simp
    note e = entries_add_message_capped[OF acc pos, of cm u]
    have "int (length (entries (add_message cfg cm u tx mid now) u)) \<le> CONTEXT_MAX_MESSAGES cfg"
      using length_most_recent[of "nat (CONTEXT_MAX_MESSAGES cfg)"
              "entries cm u @ [entry_of (tx, mid, now)]"] pos
      by (simp add: e)
    then show ?thesis
      using e last_most_recent_snoc[OF n] last_activity_add_message[OF acc, of cfg cm u u]
      by simp
  qed
  have many: "entries (add_messages cfg cm u calls) u =
        most_recent (nat (CONTEXT_MAX_MESSAGES cfg))
          (entries cm u @ map entry_of (filter accepted calls)) \<and>
      int (length (entries (add_messages cfg cm u calls) u)) \<le> CONTEXT_MAX_MESSAGES cfg"
    if pos: "0 < CONTEXT_MAX_MESSAGES cfg"
      and "int (length (entries cm u)) \<le> CONTEXT_MAX_MESSAGES cfg"
  proof -
    note e = add_messages_entries[OF that, of calls]
    have "int (length (entries (add_messages cfg cm u calls) u)) \<le> CONTEXT_MAX_MESSAGES cfg"
      using length_most_recent[of "nat (CONTEXT_MAX_MESSAGES cfg)"
              "entries cm u @ map entry_of (filter accepted calls)"] pos
      by (simp add: e)
    with e show ?thesis by simp
  qed
  from short one many show ?thesis by blast
qed

theorem C4_append_witness:
  "length (strip [32, 104, 105, 32]) < 5 \<and>
   add_message \<lparr>CONTEXT_MAX_MESSAGES = 2, CONTEXT_TIMEOUT_MINUTES = 30, CONTEXT_MAX_TOKENS = 4000\<rparr> \<lparr>user_contexts = [(1, [\<lparr>msg_text = [104, 101, 108, 108, 111], timestamp = 0, message_id = None\<rparr>])],
       user_last_activity = [(1, 0)]\<rparr> 1 [32, 104, 105, 32] None 9 = \<lparr>user_contexts = [(1, [\<lparr>msg_text = [104, 101, 108, 108, 111], timestamp = 0, message_id = None\<rparr>])],
       user_last_activity = [(1, 0)]\<rparr> \<and>
   5 \<le> length (strip [32, 119, 111, 114, 108, 100, 10]) \<and>
   0 < CONTEXT_MAX_MESSAGES \<lparr>CONTEXT_MAX_MESSAGES = 2, CONTEXT_TIMEOUT_MINUTES = 30, CONTEXT_MAX_TOKENS = 4000\<rparr> \<and>
   entries (add_message \<lparr>CONTEXT_MAX_MESSAGES = 2, CONTEXT_TIMEOUT_MINUTES = 30, CONTEXT_MAX_TOKENS = 4000\<rparr> \<lparr>user_contexts = [(1, [\<lparr>msg_text = [104, 101, 108, 108, 111], timestamp = 0, message_id = None\<rparr>])],
       user_last_activity = [(1, 0)]\<rparr> 1 [32, 119, 111, 114, 108, 100, 10] (Some 3) 9) 1 =
     [\<lparr>msg_text = [104, 101, 108, 108, 111], timestamp = 0, message_id = None\<rparr>, \<lparr>msg_text = [119, 111, 114, 108, 100], timestamp = 9, message_id = Some 3\<rparr>] \<and>
   map_of (user_last_activity
      (add_message \<lparr>CONTEXT_MAX_MESSAGES = 2, CONTEXT_TIMEOUT_MINUTES = 30, CONTEXT_MAX_TOKENS = 4000\<rparr> \<lparr>user_contexts = [(1, [\<lparr>msg_text = [104, 101, 108, 108, 111], timestamp = 0, message_id = None\<rparr>])],
       user_last_activity = [(1, 0)]\<rparr> 1 [32, 119, 111, 114, 108, 100, 10] (Some 3) 9)) 1 = Some 9 \<and>
   int (length (entries \<lparr>user_contexts = [], user_last_activity = []\<rparr> 7)) \<le> CONTEXT_MAX_MESSAGES \<lparr>CONTEXT_MAX_MESSAGES = 2, CONTEXT_TIMEOUT_MINUTES = 30, CONTEXT_MAX_TOKENS = 4000\<rparr> \<and>
   entries (add_messages \<lparr>CONTEXT_MAX_MESSAGES = 2, CONTEXT_TIMEOUT_MINUTES = 30, CONTEXT_MAX_TOKENS = 4000\<rparr> \<lparr>user_contexts = [], user_last_activity = []\<rparr> 7
      [([104, 101, 108, 108, 111], None, 1), ([32, 104, 105, 32], None, 2),
        ([32, 119, 111, 114, 108, 100, 10], Some 3, 3), ([116, 104, 105, 114, 100], Some 4, 4)]) 7 =
     [\<lparr>msg_text = [119, 111, 114, 108, 100], timestamp = 3, message_id = Some 3\<rparr>,
      \<lparr>msg_text = [116, 104, 105, 114, 100], timestamp = 4, message_id = Some 4\<rparr>]"
proof -
  have s: "strip [32, 104, 105, 32] = [104, 105]"
          "strip [32, 119, 111, 114, 108, 100, 10] = [119, 111, 114, 108, 100]"
          "strip [104, 101, 108, 108, 111] = [104, 101, 108, 108, 111]"
          "strip [116, 104, 105, 114, 100] = [116, 104, 105, 114, 100]"
    by (simp_all add: strip_def isspace_def)
  have e: "entries \<lparr>user_contexts = [(1, [\<lparr>msg_text = [104, 101, 108, 108, 111], timestamp = 0, message_id = None\<rparr>])],
       user_last_activity = [(1, 0)]\<rparr> 1 = [\<lparr>msg_text = [104, 101, 108, 108, 111], timestamp = 0, message_id = None\<rparr>]" "entries \<lparr>user_contexts = [], user_last_activity = []\<rparr> 7 = []"
    by (simp_all add: entries_def)
  show ?thesis
    using C4_append[of "[32, 104, 105, 32]" "\<lparr>CONTEXT_MAX_MESSAGES = 2, CONTEXT_TIMEOUT_MINUTES = 30, CONTEXT_MAX_TOKENS = 4000\<rparr>" "\<lparr>user_contexts = [(1, [\<lparr>msg_text = [104, 101, 108, 108, 111], timestamp = 0, message_id = None\<rparr>])],
       user_last_activity = [(1, 0)]\<rparr>" 1 None 9 "[]"]
          C4_append[of "[32, 119, 111, 114, 108, 100, 10]" "\<lparr>CONTEXT_MAX_MESSAGES = 2, CONTEXT_TIMEOUT_MINUTES = 30, CONTEXT_MAX_TOKENS = 4000\<rparr>" "\<lparr>user_contexts = [(1, [\<lparr>msg_text = [104, 101, 108, 108, 111], timestamp = 0, message_id = None\<rparr>])],
       user_last_activity = [(1, 0)]\<rparr>" 1 "Some 3" 9 "[]"]
          C4_append[of "[]" "\<lparr>CONTEXT_MAX_MESSAGES = 2, CONTEXT_TIMEOUT_MINUTES = 30, CONTEXT_MAX_TOKENS = 4000\<rparr>" "\<lparr>user_contexts = [], user_last_activity = []\<rparr>" 7 None 0
      "[([104, 101, 108, 108, 111], None, 1), ([32, 104, 105, 32], None, 2),
        ([32, 119, 111, 114, 108, 100, 10], Some 3, 3), ([116, 104, 105, 114, 100], Some 4, 4)]"]
    by (simp add: s e entry_of_def accepted_def most_recent_def)
qed

text \<open>
  Claim C10.  Let the user's last activity be more than the timeout ago, so that the
  buffer is expired but still stored, and let a text of at least 5 stripped characters
  be added, with positive \<open>CONTEXT_MAX_MESSAGES\<close> and a non-negative timeout.  Then the
  buffer holds the most recent \<open>CONTEXT_MAX_MESSAGES\<close> of the stale entries followed by the
  new one (all of them when the stale ones were fewer than the cap), the last activity
  is \<open>now\<close>, the buffer is no longer expired, and \<open>has_context\<close>, \<open>get_message_count\<close> and
  \<open>get_context_text\<close> see these entries.
\<close>

theorem C10_append_revives_stale:
  assumes "map_of (user_last_activity cm) u = Some la"
    and "now - la > timedelta_minutes (CONTEXT_TIMEOUT_MINUTES cfg)"
    and "5 \<le> length (strip tx)"
    and "0 < CONTEXT_MAX_MESSAGES cfg"
    and "0 \<le> CONTEXT_TIMEOUT_MINUTES cfg"
  shows "is_context_expired cfg cm u now \<and>
    entries (add_message cfg cm u tx mid now) u =
      most_recent (nat (CONTEXT_MAX_MESSAGES cfg)) (entries cm u @ [entry_of (tx, mid, now)]) \<and>
    (int (length (entries cm u)) < CONTEXT_MAX_MESSAGES cfg \<longrightarrow>
       entries (add_message cfg cm u tx mid now) u = entries cm u @ [entry_of (tx, mid, now)]) \<and>
    map_of (user_last_activity (add_message cfg cm u tx mid now)) u = Some now \<and>
    \<not> is_context_expired cfg (add_message cfg cm u tx mid now) u now \<and>
    has_context cfg (add_message cfg cm u tx mid now) u now =
      (add_message cfg cm u tx mid now, True) \<and>
    get_message_count cfg (add_message cfg cm u tx mid now) u now =
      (add_message cfg cm u tx mid now,
       Inr (int (length (entries (add_message cfg cm u tx mid now) u)))) \<and>
    (\<exists>s. get_context_text cfg (add_message cfg cm u tx mid now) u now =
            (add_message cfg cm u tx mid now, Inr (Some s))) \<and>
    (int (length (render_all (entries (add_message cfg cm u tx mid now) u))) div 4
         \<le> CONTEXT_MAX_TOKENS cfg \<longrightarrow>
       snd (get_context_text cfg (add_message cfg cm u tx mid now) u now) =
         Inr (Some (render_all (entries (add_message cfg cm u tx mid now) u))))"
proof -
  let ?cm = "add_message cfg cm u tx mid now"
  have acc: "accepted (tx, mid, now)" using assms(3) by (simp add: accepted_def)
  have n: "0 < nat (CONTEXT_MAX_MESSAGES cfg)" using assms(4) by simp
  have stale: "is_context_expired cfg cm u now"
    using assms(2) by (simp add: is_context_expired_Some[OF assms(1)])
  have e: "entries ?cm u =
      most_recent (nat (CONTEXT_MAX_MESSAGES cfg)) (entries cm u @ [entry_of (tx, mid, now)])"
    by (rule entries_add_message_capped[OF acc assms(4)])
  have all: "entries ?cm u = entries cm u @ [entry_of (tx, mid, now)]"
    if "int (length (entries cm u)) < CONTEXT_MAX_MESSAGES cfg"
    using that by (simp add: e most_recent_all)
  have act: "map_of (user_last_activity ?cm) u = Some now"
    using last_activity_add_message[OF acc, of cfg cm u u] by simp
  have fresh: "\<not> is_context_expired cfg ?cm u now"
    using assms(5) by (simp add: is_context_expired_Some[OF act] timedelta_minutes_def)
  have ne: "entries ?cm u \<noteq> []"
    using most_recent_snoc_nonempty[OF n] by (simp add: e)
  have hc: "has_context cfg ?cm u now = (?cm, True)"
    using fresh ne by (simp add: has_context_eq)
  have mc: "get_message_count cfg ?cm u now = (?cm, Inr (int (length (entries ?cm u))))"
    using fresh ne by (simp add: get_message_count_eq)
  have gt: "get_context_text cfg ?cm u now = (?cm, rendered cfg ?cm u)"
    using fresh ne by (simp add: get_context_text_eq)
  have ex: "\<exists>s. get_context_text cfg ?cm u now = (?cm, Inr (Some s))"
    using rendered_Some[OF ne, of cfg] gt by auto
  have full: "snd (get_context_text cfg ?cm u now) = Inr (Some (render_all (entries ?cm u)))"
    if "int (length (render_all (entries ?cm u))) div 4 \<le> CONTEXT_MAX_TOKENS cfg"
    using that by (simp add: gt rendered_def)
  from stale e all act fresh hc mc ex full show ?thesis by blast
qed

theorem C10_append_revives_stale_witness:
  "map_of (user_last_activity \<lparr>user_contexts = [(1, [\<lparr>msg_text = [104, 101, 108, 108, 111], timestamp = 0, message_id = None\<rparr>])],
       user_last_activity = [(1, 0)]\<rparr>) 1 = Some 0 \<and>
   1800000001 - 0 > timedelta_minutes (CONTEXT_TIMEOUT_MINUTES default_config) \<and>
   5 \<le> length (strip [119, 111, 114, 108, 100]) \<and>
   0 < CONTEXT_MAX_MESSAGES default_config \<and> 0 \<le> CONTEXT_TIMEOUT_MINUTES default_config \<and>
   is_context_expired default_config \<lparr>user_contexts = [(1, [\<lparr>msg_text = [104, 101, 108, 108, 111], timestamp = 0, message_id = None\<rparr>])],
       user_last_activity = [(1, 0)]\<rparr> 1 1800000001 \<and>
   int (length (entries \<lparr>user_contexts = [(1, [\<lparr>msg_text = [104, 101, 108, 108, 111], timestamp = 0, message_id = None\<rparr>])],
       user_last_activity = [(1, 0)]\<rparr> 1)) < CONTEXT_MAX_MESSAGES default_config \<and>
   entries (add_message default_config \<lparr>user_contexts = [(1, [\<lparr>msg_text = [104, 101, 108, 108, 111], timestamp = 0, message_id = None\<rparr>])],
       user_last_activity = [(1, 0)]\<rparr> 1 [119, 111, 114, 108, 100] None 1800000001) 1 =
     [\<lparr>msg_text = [104, 101, 108, 108, 111], timestamp = 0, message_id = None\<rparr>, \<lparr>msg_text = [119, 111, 114, 108, 100], timestamp = 1800000001, message_id = None\<rparr>] \<and>
   map_of (user_last_activity
      (add_message default_config \<lparr>user_contexts = [(1, [\<lparr>msg_text = [104, 101, 108, 108, 111], timestamp = 0, message_id = None\<rparr>])],
       user_last_activity = [(1, 0)]\<rparr> 1 [119, 111, 114, 108, 100] None 1800000001)) 1 =
     Some 1800000001 \<and>
   snd (has_context default_config
      (add_message default_config \<lparr>user_contexts = [(1, [\<lparr>msg_text = [104, 101, 108, 108, 111], timestamp = 0, message_id = None\<rparr>])],
       user_last_activity = [(1, 0)]\<rparr> 1 [119, 111, 114, 108, 100] None 1800000001) 1 1800000001) = True \<and>
   snd (get_message_count default_config
      (add_message default_config \<lparr>user_contexts = [(1, [\<lparr>msg_text = [104, 101, 108, 108, 111], timestamp = 0, message_id = None\<rparr>])],
       user_last_activity = [(1, 0)]\<rparr> 1 [119, 111, 114, 108, 100] None 1800000001) 1 1800000001) = Inr 2"
proof -
  have a: "map_of (user_last_activity \<lparr>user_contexts = [(1, [\<lparr>msg_text = [104, 101, 108, 108, 111], timestamp = 0, message_id = None\<rparr>])],
       user_last_activity = [(1, 0)]\<rparr>) 1 = Some 0" by simp
  have t: "1800000001 - 0 > timedelta_minutes (CONTEXT_TIMEOUT_MINUTES default_config)"
    by (simp add: timedelta_minutes_def default_config_def)
  have s: "strip [119, 111, 114, 108, 100] = [119, 111, 114, 108, 100]"
    by (simp add: strip_def isspace_def)
  have l: "5 \<le> length (strip [119, 111, 114, 108, 100])" by (simp add: s)
  have p: "0 < CONTEXT_MAX_MESSAGES default_config" "0 \<le> CONTEXT_TIMEOUT_MINUTES default_config"
    by (simp_all add: default_config_def)
  have e: "entries \<lparr>user_contexts = [(1, [\<lparr>msg_text = [104, 101, 108, 108, 111], timestamp = 0, message_id = None\<rparr>])],
       user_last_activity = [(1, 0)]\<rparr> 1 = [\<lparr>msg_text = [104, 101, 108, 108, 111], timestamp = 0, message_id = None\<rparr>]"
    by (simp add: entries_def)
  show ?thesis
    using C10_append_revives_stale[OF a t l p, of None] t
    by (simp add: s e entry_of_def default_config_def most_recent_def)
qed

lemma fold_clear_contexts:
  "user_contexts (fold (\<lambda>user_id cm1. clear_context cm1 user_id) us cm) =
     filter (\<lambda>p. fst p \<notin> set us) (user_contexts cm)"
  by (induction us arbitrary: cm) (auto simp add: clear_context_def AList.delete_eq intro: filter_cong)

lemma fold_clear_last_activity:
  "user_last_activity (fold (\<lambda>user_id cm1. clear_context cm1 user_id) us cm) =
     filter (\<lambda>p. fst p \<notin> set us) (user_last_activity cm)"
  by (induction us arbitrary: cm) (auto simp add: clear_context_def AList.delete_eq intro: filter_cong)

lemma map_of_filter_keys:
  "map_of (filter (\<lambda>p. fst p \<notin> A) al) k = (if k \<in> A then None else map_of al k)"
  by (induction al) auto

lemma set_expired_users:
  "(u \<in> set (expired_users cfg cm now)) =
     (u \<in> fst ` set (user_contexts cm) \<and> is_context_expired cfg cm u now)"
  by (auto simp add: expired_users_def)

lemma length_expired_users:
  "length (filter (\<lambda>p. fst p \<notin> set (expired_users cfg cm now)) (user_contexts cm)) +
     length (expired_users cfg cm now) = length (user_contexts cm)"
proof -
  have "filter (\<lambda>p. fst p \<notin> set (expired_users cfg cm now)) (user_contexts cm) =
        filter (\<lambda>p. \<not> is_context_expired cfg cm (fst p) now) (user_contexts cm)"
    by (auto simp add: set_expired_users intro!: filter_cong)
  moreover have "length (expired_users cfg cm now) =
        length (filter (\<lambda>p. is_context_expired cfg cm (fst p) now) (user_contexts cm))"
    by (simp add: expired_users_def filter_map comp_def)
  ultimately show ?thesis
    using sum_length_filter_compl[of "\<lambda>p. is_context_expired cfg cm (fst p) now" "user_contexts cm"]
    by simp
qed

text \<open>
  Claim C7, as amended.  \<open>cleanup_expired_contexts\<close> returns \<open>None\<close>.  It removes the
  buffer and the activity record of exactly the users that have a buffer and are
  expired (no activity record, or a last activity more than the timeout before \<open>now\<close>),
  and leaves all other buffers and records as they are; the number of buffers removed is
  the length of the list \<open>expired_users\<close>, which is only logged.
\<close>

theorem C7_cleanup:
  "snd (cleanup_expired_contexts cfg cm now) = PyNone \<and>
   (u \<in> set (expired_users cfg cm now)) =
     (u \<in> fst ` set (user_contexts cm) \<and>
      (case map_of (user_last_activity cm) u of
         None \<Rightarrow> True
       | Some la \<Rightarrow> now - la > timedelta_minutes (CONTEXT_TIMEOUT_MINUTES cfg))) \<and>
   map_of (user_contexts (fst (cleanup_expired_contexts cfg cm now))) u =
     (if u \<in> set (expired_users cfg cm now) then None else map_of (user_contexts cm) u) \<and>
   map_of (user_last_activity (fst (cleanup_expired_contexts cfg cm now))) u =
     (if u \<in> set (expired_users cfg cm now) then None else map_of (user_last_activity cm) u) \<and>
   length (user_contexts (fst (cleanup_expired_contexts cfg cm now))) +
     length (expired_users cfg cm now) = length (user_contexts cm)"
proof -
  let ?cm = "fst (cleanup_expired_contexts cfg cm now)"
  have r: "snd (cleanup_expired_contexts cfg cm now) = PyNone"
    by (simp add: cleanup_expired_contexts_def)
  have x: "(u \<in> set (expired_users cfg cm now)) =
     (u \<in> fst ` set (user_contexts cm) \<and>
      (case map_of (user_last_activity cm) u of
         None \<Rightarrow> True
       | Some la \<Rightarrow> now - la > timedelta_minutes (CONTEXT_TIMEOUT_MINUTES cfg)))"
    by (simp only: set_expired_users is_context_expired_def)
  have c: "map_of (user_contexts ?cm) u =
     (if u \<in> set (expired_users cfg cm now) then None else map_of (user_contexts cm) u)"
    by (simp only: cleanup_expired_contexts_def fst_conv fold_clear_contexts map_of_filter_keys)
  have a: "map_of (user_last_activity ?cm) u =
     (if u \<in> set (expired_users cfg cm now) then None else map_of (user_last_activity cm) u)"
    by (simp only: cleanup_expired_contexts_def fst_conv fold_clear_last_activity
          map_of_filter_keys)
  have n: "length (user_contexts ?cm) + length (expired_users cfg cm now) =
             length (user_contexts cm)"
    using length_expired_users[of cfg cm now]
    by (simp only: cleanup_expired_contexts_def fst_conv fold_clear_contexts)
  from r x c a n show ?thesis by blast
qed

theorem C7_counterexample:
  "user_contexts \<lparr>user_contexts = [(1, [\<lparr>msg_text = [104, 101, 108, 108, 111], timestamp = 0, message_id = None\<rparr>])],
       user_last_activity = [(1, 0)]\<rparr> = [(1, [\<lparr>msg_text = [104, 101, 108, 108, 111], timestamp = 0, message_id = None\<rparr>])] \<and>
   user_contexts (fst (cleanup_expired_contexts default_config \<lparr>user_contexts = [(1, [\<lparr>msg_text = [104, 101, 108, 108, 111], timestamp = 0, message_id = None\<rparr>])],
       user_last_activity = [(1, 0)]\<rparr> 1800000001)) = [] \<and>
   snd (cleanup_expired_contexts default_config \<lparr>user_contexts = [(1, [\<lparr>msg_text = [104, 101, 108, 108, 111], timestamp = 0, message_id = None\<rparr>])],
       user_last_activity = [(1, 0)]\<rparr> 1800000001) \<noteq> PyInt 1"
  by (simp add: cleanup_expired_contexts_def expired_users_def is_context_expired_def
        clear_context_def timedelta_minutes_def default_config_def)

section \<open>Truncation of the rendered context\<close>

lemma index_of_nth:
  assumes "distinct xs" and "j < length xs"
  shows "index_of xs (xs ! j) = j"
proof -
  have "takeWhile (\<lambda>y. y \<noteq> xs ! j) xs = take j xs"
  proof (rule takeWhile_eq_take_P_nth)
    fix i assume "i < j" "i < length xs"
    then show "xs ! i \<noteq> xs ! j"
      using assms by (simp add: nth_eq_iff_index_eq)
  next
    show "\<not> xs ! j \<noteq> xs ! j" by simp
  qed
  then show ?thesis using assms(2) by (simp add: index_of_def)
qed

lemma loop_parts:
  assumes "distinct messages" and "1 \<le> i" and "i \<le> length messages"
  shows "join separator
           (map (\<lambda>msg. format_part
                   (length messages - i +
                      index_of (slice_from messages (- int i)) msg + 1) msg)
              (slice_from messages (- int i))) =
         render_suffix messages i"
proof -
  define n where "n = length messages"
  define suffix where "suffix = drop (n - i) messages"
  have sl: "slice_from messages (- int i) = suffix"
    using assms(2,3) by (simp add: slice_from_def suffix_def n_def nat_diff_distrib')
  have len: "length suffix = i" using assms(3) by (simp add: suffix_def n_def)
  have dist: "distinct suffix" using assms(1) by (simp add: suffix_def)
  have "map (\<lambda>msg. format_part (n - i + index_of suffix msg + 1) msg) suffix =
        map (\<lambda>(j, msg). format_part j msg) (zip [Suc (n - i) ..< Suc n] suffix)"
  proof (rule nth_equalityI)
    show "length (map (\<lambda>msg. format_part (n - i + index_of suffix msg + 1) msg) suffix) =
          length (map (\<lambda>(j, msg). format_part j msg) (zip [Suc (n - i) ..< Suc n] suffix))"
      using assms(2,3) by (simp add: len n_def del: upt_Suc)
  next
    fix j assume "j < length (map (\<lambda>msg. format_part (n - i + index_of suffix msg + 1) msg) suffix)"
    then have j: "j < i" by (simp add: len)
    then have "index_of suffix (suffix ! j) = j"
      using index_of_nth[OF dist] by (simp add: len)
    moreover have "[Suc (n - i) ..< Suc n] ! j = Suc (n - i) + j"
      using j assms(3) by (intro nth_upt) (simp add: n_def)
    moreover have "length [Suc (n - i) ..< Suc n] = i"
      using assms(2,3) by (simp add: n_def del: upt_Suc)
    ultimately show "map (\<lambda>msg. format_part (n - i + index_of suffix msg + 1) msg) suffix ! j =
          map (\<lambda>(j, msg). format_part j msg) (zip [Suc (n - i) ..< Suc n] suffix) ! j"
      using j by (simp add: len del: upt_Suc)
  qed
  then show ?thesis
    by (simp add: sl render_suffix_def n_def[symmetric] suffix_def[symmetric])
qed

lemma render_suffix_all: "render_suffix messages (length messages) = render_all messages"
  by (simp add: render_suffix_def render_all_def)

lemma truncate_loop_spec:
  assumes "distinct messages" and "k \<le> length messages"
  shows "case truncate_loop messages mc k of
           Some s \<Rightarrow>
             (\<exists>i. 1 \<le> i \<and> i \<le> k \<and> int (length (render_suffix messages i)) \<le> mc \<and>
                  (\<forall>j. i < j \<and> j \<le> k \<longrightarrow> \<not> int (length (render_suffix messages j)) \<le> mc) \<and>
                  s = render_suffix messages i)
         | None \<Rightarrow> (\<forall>j. 1 \<le> j \<and> j \<le> k \<longrightarrow> \<not> int (length (render_suffix messages j)) \<le> mc)"
  using assms(2)
proof (induction k)
  case 0
  show ?case by simp
next
  case (Suc k)
  have body: "join separator
           (map (\<lambda>msg. format_part
                   (length messages - Suc k +
                      index_of (slice_from messages (- int (Suc k))) msg + 1) msg)
              (slice_from messages (- int (Suc k)))) =
         render_suffix messages (Suc k)"
    using loop_parts[OF assms(1), of "Suc k"] Suc.prems by simp
  show ?case
  proof (cases "int (length (render_suffix messages (Suc k))) \<le> mc")
    case True
    then have "truncate_loop messages mc (Suc k) = Some (render_suffix messages (Suc k))"
      using body by (simp add: Let_def)
    then show ?thesis using True by (auto simp del: truncate_loop.simps)
  next
    case False
    then have eq: "truncate_loop messages mc (Suc k) = truncate_loop messages mc k"
      using body by (simp add: Let_def)
    from Suc.IH Suc.prems have IH: "case truncate_loop messages mc k of
           Some s \<Rightarrow>
             (\<exists>i. 1 \<le> i \<and> i \<le> k \<and> int (length (render_suffix messages i)) \<le> mc \<and>
                  (\<forall>j. i < j \<and> j \<le> k \<longrightarrow> \<not> int (length (render_suffix messages j)) \<le> mc) \<and>
                  s = render_suffix messages i)
         | None \<Rightarrow> (\<forall>j. 1 \<le> j \<and> j \<le> k \<longrightarrow> \<not> int (length (render_suffix messages j)) \<le> mc)"
      by simp
    show ?thesis
    proof (cases "truncate_loop messages mc k")
      case None
      with IH False show ?thesis
        by (auto simp add: eq le_Suc_eq simp del: truncate_loop.simps)
    next
      case (Some s)
      with IH obtain i where i: "1 \<le> i" "i \<le> k" "int (length (render_suffix messages i)) \<le> mc"
        "\<forall>j. i < j \<and> j \<le> k \<longrightarrow> \<not> int (length (render_suffix messages j)) \<le> mc"
        "s = render_suffix messages i"
        by auto
      have "\<forall>j. i < j \<and> j \<le> Suc k \<longrightarrow> \<not> int (length (render_suffix messages j)) \<le> mc"
        using i(4) False by (auto simp add: le_Suc_eq)
      with i Some show ?thesis by (auto simp add: eq simp del: truncate_loop.simps)
    qed
  qed
qed


lemma get_context_text_live:
  assumes "map_of (user_contexts cm) u = Some messages" and "messages \<noteq> []"
    and "\<not> is_context_expired cfg cm u now"
  shows "get_context_text cfg cm u now =
     (cm, Inr (Some
        (if int (length (render_all messages)) div 4 > CONTEXT_MAX_TOKENS cfg
         then (case truncate_loop messages (maxRenderedSize cfg) (length messages) of
                 Some s \<Rightarrow> s
               | None \<Rightarrow> slice_to (msg_text (last messages)) (maxRenderedSize cfg))
         else render_all messages)))"
  using assms
  by (simp add: get_context_text_def truncate_context_def maxRenderedSize_def Let_def
        split: option.split)

text \<open>
  Claim C2, as amended.  Take a user with a non-empty, non-expired buffer of pairwise
  different entries and a non-negative \<open>CONTEXT_MAX_TOKENS\<close>; the character budget is
  \<open>maxRenderedSize = 4 * CONTEXT_MAX_TOKENS\<close>.  The full rendering is the rendering of the
  suffix of all entries.  When its estimated token count, its length divided by 4 and
  rounded down, is at most \<open>CONTEXT_MAX_TOKENS\<close>, \<open>get_context_text\<close> returns the full
  rendering, which has at most \<open>maxRenderedSize + 3\<close> characters.  When the estimate
  exceeds \<open>CONTEXT_MAX_TOKENS\<close>, it returns a text of at most \<open>maxRenderedSize\<close>
  characters: the rendering, with the entries' numbers in the whole buffer, of the
  longest trailing suffix of at least one entry whose rendering has at most
  \<open>maxRenderedSize\<close> characters, or, when no such suffix exists, the first
  \<open>maxRenderedSize\<close> characters of the latest entry's text.  The state is unchanged.
\<close>

theorem C2_truncation:
  assumes "map_of (user_contexts cm) u = Some messages" and "messages \<noteq> []"
    and "\<not> is_context_expired cfg cm u now"
    and "distinct messages"
    and "0 \<le> CONTEXT_MAX_TOKENS cfg"
  shows "render_suffix messages (length messages) = render_all messages \<and>
    (int (length (render_all messages)) div 4 \<le> CONTEXT_MAX_TOKENS cfg \<longrightarrow>
       get_context_text cfg cm u now = (cm, Inr (Some (render_all messages))) \<and>
       int (length (render_all messages)) \<le> maxRenderedSize cfg + 3) \<and>
    (int (length (render_all messages)) div 4 > CONTEXT_MAX_TOKENS cfg \<longrightarrow>
       (\<exists>s. get_context_text cfg cm u now = (cm, Inr (Some s)) \<and>
            int (length s) \<le> maxRenderedSize cfg \<and>
            ((\<exists>i. 1 \<le> i \<and> i \<le> length messages \<and>
                  int (length (render_suffix messages i)) \<le> maxRenderedSize cfg \<and>
                  (\<forall>j. i < j \<and> j \<le> length messages \<longrightarrow>
                       \<not> int (length (render_suffix messages j)) \<le> maxRenderedSize cfg) \<and>
                  s = render_suffix messages i) \<or>
             ((\<forall>j. 1 \<le> j \<and> j \<le> length messages \<longrightarrow>
                   \<not> int (length (render_suffix messages j)) \<le> maxRenderedSize cfg) \<and>
              s = take (nat (maxRenderedSize cfg)) (msg_text (last messages))))))"
proof -
  note live = get_context_text_live[OF assms(1,2,3)]
  have budget: "0 \<le> maxRenderedSize cfg"
    using assms(5) by (simp add: maxRenderedSize_def)
  have full: "get_context_text cfg cm u now = (cm, Inr (Some (render_all messages))) \<and>
       int (length (render_all messages)) \<le> maxRenderedSize cfg + 3"
    if "int (length (render_all messages)) div 4 \<le> CONTEXT_MAX_TOKENS cfg"
    using that by (simp add: live maxRenderedSize_def)
  have cut: "\<exists>s. get_context_text cfg cm u now = (cm, Inr (Some s)) \<and>
            int (length s) \<le> maxRenderedSize cfg \<and>
            ((\<exists>i. 1 \<le> i \<and> i \<le> length messages \<and>
                  int (length (render_suffix messages i)) \<le> maxRenderedSize cfg \<and>
                  (\<forall>j. i < j \<and> j \<le> length messages \<longrightarrow>
                       \<not> int (length (render_suffix messages j)) \<le> maxRenderedSize cfg) \<and>
                  s = render_suffix messages i) \<or>
             ((\<forall>j. 1 \<le> j \<and> j \<le> length messages \<longrightarrow>
                   \<not> int (length (render_suffix messages j)) \<le> maxRenderedSize cfg) \<and>
              s = take (nat (maxRenderedSize cfg)) (msg_text (last messages))))"
    if over: "int (length (render_all messages)) div 4 > CONTEXT_MAX_TOKENS cfg"
  proof (cases "truncate_loop messages (maxRenderedSize cfg) (length messages)")
    case None
    have none: "\<forall>j. 1 \<le> j \<and> j \<le> length messages \<longrightarrow>
                 \<not> int (length (render_suffix messages j)) \<le> maxRenderedSize cfg"
      using truncate_loop_spec[OF assms(4) le_refl, of "maxRenderedSize cfg"] None by simp
    have sl: "slice_to (msg_text (last messages)) (maxRenderedSize cfg) =
                take (nat (maxRenderedSize cfg)) (msg_text (last messages))"
      using budget by (simp add: slice_to_def)
    have "get_context_text cfg cm u now =
            (cm, Inr (Some (take (nat (maxRenderedSize cfg)) (msg_text (last messages)))))"
      using over None by (simp add: live sl)
    moreover have "int (length (take (nat (maxRenderedSize cfg)) (msg_text (last messages))))
                     \<le> maxRenderedSize cfg"
      using budget by simp
    ultimately show ?thesis using none by blast
  next
    case (Some s)
    from truncate_loop_spec[OF assms(4) le_refl, of "maxRenderedSize cfg"] Some
    obtain i where i: "1 \<le> i" "i \<le> length messages"
        "int (length (render_suffix messages i)) \<le> maxRenderedSize cfg"
        "\<forall>j. i < j \<and> j \<le> length messages \<longrightarrow>
             \<not> int (length (render_suffix messages j)) \<le> maxRenderedSize cfg"
        "s = render_suffix messages i"
      by auto
    have "get_context_text cfg cm u now = (cm, Inr (Some s))"
      using over Some by (simp add: live)
    with i show ?thesis by blast
  qed
  from render_suffix_all[of messages] full cut show ?thesis by blast
qed

theorem C2_truncation_witness:
  "map_of (user_contexts
     \<lparr>user_contexts = [(1, [\<lparr>msg_text = [97, 98, 99, 100, 101, 102, 103, 104, 105], timestamp = 3723000000, message_id = Some 1\<rparr>,
      \<lparr>msg_text = [104, 101, 108, 108, 111], timestamp = 3724000000, message_id = Some 2\<rparr>])], user_last_activity = [(1, 3724000000)]\<rparr>) 1 =
     Some [\<lparr>msg_text = [97, 98, 99, 100, 101, 102, 103, 104, 105], timestamp = 3723000000, message_id = Some 1\<rparr>,
      \<lparr>msg_text = [104, 101, 108, 108, 111], timestamp = 3724000000, message_id = Some 2\<rparr>] \<and>
   [\<lparr>msg_text = [97, 98, 99, 100, 101, 102, 103, 104, 105], timestamp = 3723000000, message_id = Some 1\<rparr>,
      \<lparr>msg_text = [104, 101, 108, 108, 111], timestamp = 3724000000, message_id = Some 2\<rparr>] \<noteq> [] \<and>
   \<not> is_context_expired \<lparr>CONTEXT_MAX_MESSAGES = 10, CONTEXT_TIMEOUT_MINUTES = 30, CONTEXT_MAX_TOKENS = 8\<rparr>
     \<lparr>user_contexts = [(1, [\<lparr>msg_text = [97, 98, 99, 100, 101, 102, 103, 104, 105], timestamp = 3723000000, message_id = Some 1\<rparr>,
      \<lparr>msg_text = [104, 101, 108, 108, 111], timestamp = 3724000000, message_id = Some 2\<rparr>])], user_last_activity = [(1, 3724000000)]\<rparr> 1 3725000000 \<and>
   distinct [\<lparr>msg_text = [97, 98, 99, 100, 101, 102, 103, 104, 105], timestamp = 3723000000, message_id = Some 1\<rparr>,
      \<lparr>msg_text = [104, 101, 108, 108, 111], timestamp = 3724000000, message_id = Some 2\<rparr>] \<and>
   0 \<le> CONTEXT_MAX_TOKENS \<lparr>CONTEXT_MAX_MESSAGES = 10, CONTEXT_TIMEOUT_MINUTES = 30, CONTEXT_MAX_TOKENS = 8\<rparr> \<and>
   int (length (render_all [\<lparr>msg_text = [97, 98, 99, 100, 101, 102, 103, 104, 105], timestamp = 3723000000, message_id = Some 1\<rparr>,
      \<lparr>msg_text = [104, 101, 108, 108, 111], timestamp = 3724000000, message_id = Some 2\<rparr>])) div 4 > CONTEXT_MAX_TOKENS \<lparr>CONTEXT_MAX_MESSAGES = 10, CONTEXT_TIMEOUT_MINUTES = 30, CONTEXT_MAX_TOKENS = 8\<rparr> \<and>
   maxRenderedSize \<lparr>CONTEXT_MAX_MESSAGES = 10, CONTEXT_TIMEOUT_MINUTES = 30, CONTEXT_MAX_TOKENS = 8\<rparr> = 32 \<and>
   length (render_suffix [\<lparr>msg_text = [97, 98, 99, 100, 101, 102, 103, 104, 105], timestamp = 3723000000, message_id = Some 1\<rparr>,
      \<lparr>msg_text = [104, 101, 108, 108, 111], timestamp = 3724000000, message_id = Some 2\<rparr>] 2) = 69 \<and>
   length (render_suffix [\<lparr>msg_text = [97, 98, 99, 100, 101, 102, 103, 104, 105], timestamp = 3723000000, message_id = Some 1\<rparr>,
      \<lparr>msg_text = [104, 101, 108, 108, 111], timestamp = 3724000000, message_id = Some 2\<rparr>] 1) = 29 \<and>
   snd (get_context_text \<lparr>CONTEXT_MAX_MESSAGES = 10, CONTEXT_TIMEOUT_MINUTES = 30, CONTEXT_MAX_TOKENS = 8\<rparr>
     \<lparr>user_contexts = [(1, [\<lparr>msg_text = [97, 98, 99, 100, 101, 102, 103, 104, 105], timestamp = 3723000000, message_id = Some 1\<rparr>,
      \<lparr>msg_text = [104, 101, 108, 108, 111], timestamp = 3724000000, message_id = Some 2\<rparr>])], user_last_activity = [(1, 3724000000)]\<rparr> 1 3725000000) =
     Inr (Some (render_suffix [\<lparr>msg_text = [97, 98, 99, 100, 101, 102, 103, 104, 105], timestamp = 3723000000, message_id = Some 1\<rparr>,
      \<lparr>msg_text = [104, 101, 108, 108, 111], timestamp = 3724000000, message_id = Some 2\<rparr>] 1))"
proof -
  let ?cfg = "\<lparr>CONTEXT_MAX_MESSAGES = 10, CONTEXT_TIMEOUT_MINUTES = 30, CONTEXT_MAX_TOKENS = 8\<rparr>"
  let ?ms = "[\<lparr>msg_text = [97, 98, 99, 100, 101, 102, 103, 104, 105], timestamp = 3723000000, message_id = Some 1\<rparr>,
      \<lparr>msg_text = [104, 101, 108, 108, 111], timestamp = 3724000000, message_id = Some 2\<rparr>]"
  let ?cm = "\<lparr>user_contexts = [(1, [\<lparr>msg_text = [97, 98, 99, 100, 101, 102, 103, 104, 105], timestamp = 3723000000, message_id = Some 1\<rparr>,
      \<lparr>msg_text = [104, 101, 108, 108, 111], timestamp = 3724000000, message_id = Some 2\<rparr>])], user_last_activity = [(1, 3724000000)]\<rparr>"
  have a: "map_of (user_contexts ?cm) 1 = Some ?ms" by simp
  have b: "?ms \<noteq> []" by simp
  have c: "\<not> is_context_expired ?cfg ?cm 1 3725000000"
    by (simp add: is_context_expired_def timedelta_minutes_def)
  have d: "distinct ?ms" by simp
  have e: "0 \<le> CONTEXT_MAX_TOKENS ?cfg" by simp
  have f: "int (length (render_all ?ms)) div 4 > CONTEXT_MAX_TOKENS ?cfg" by code_simp
  have g: "maxRenderedSize ?cfg = 32" by (simp add: maxRenderedSize_def)
  have h: "length (render_suffix ?ms 2) = 69" "length (render_suffix ?ms 1) = 29" by code_simp+
  have r: "snd (get_context_text ?cfg ?cm 1 3725000000) = Inr (Some (render_suffix ?ms 1))"
    by code_simp
  from C2_truncation[OF a b c d e] a b c d e f g h r show ?thesis by blast
qed

theorem C2_counterexample:
  "maxRenderedSize \<lparr>CONTEXT_MAX_MESSAGES = 10, CONTEXT_TIMEOUT_MINUTES = 30, CONTEXT_MAX_TOKENS = 8\<rparr> = 32 \<and>
   length (render_all [\<lparr>msg_text = [97, 98, 99, 100, 101, 102, 103, 104, 105], timestamp = 3724000000, message_id = Some 2\<rparr>]) = 33 \<and>
   snd (get_context_text \<lparr>CONTEXT_MAX_MESSAGES = 10, CONTEXT_TIMEOUT_MINUTES = 30, CONTEXT_MAX_TOKENS = 8\<rparr>
     \<lparr>user_contexts = [(1, [\<lparr>msg_text = [97, 98, 99, 100, 101, 102, 103, 104, 105], timestamp = 3724000000, message_id = Some 2\<rparr>])], user_last_activity = [(1, 3724000000)]\<rparr> 1 3724000000) =
     Inr (Some (render_all [\<lparr>msg_text = [97, 98, 99, 100, 101, 102, 103, 104, 105], timestamp = 3724000000, message_id = Some 2\<rparr>])) \<and>
   length (render_all [\<lparr>msg_text = [104, 101, 108, 108, 111], timestamp = 3723000000, message_id = Some 1\<rparr>,
      \<lparr>msg_text = [97, 98, 99, 100, 101, 102, 103, 104, 105], timestamp = 3724000000, message_id = Some 2\<rparr>]) = 69 \<and>
   length (render_suffix [\<lparr>msg_text = [104, 101, 108, 108, 111], timestamp = 3723000000, message_id = Some 1\<rparr>,
      \<lparr>msg_text = [97, 98, 99, 100, 101, 102, 103, 104, 105], timestamp = 3724000000, message_id = Some 2\<rparr>] 1) = 33 \<and>
   snd (get_context_text \<lparr>CONTEXT_MAX_MESSAGES = 10, CONTEXT_TIMEOUT_MINUTES = 30, CONTEXT_MAX_TOKENS = 8\<rparr>
     \<lparr>user_contexts = [(1, [\<lparr>msg_text = [104, 101, 108, 108, 111], timestamp = 3723000000, message_id = Some 1\<rparr>,
      \<lparr>msg_text = [97, 98, 99, 100, 101, 102, 103, 104, 105], timestamp = 3724000000, message_id = Some 2\<rparr>])], user_last_activity = [(1, 3724000000)]\<rparr> 1 3724000000) =
     Inr (Some [97, 98, 99, 100, 101, 102, 103, 104, 105])"
  by code_simp

end
